theory Spec2Isabelle
  imports Complex_Main "HOL-Library.Char_ord"
begin

section \<open>JavaScript values used by the device layer\<close>

text \<open>
  Strings are ASCII strings. Byte counts, year classes and API levels are integers
  (\<open>number\<close> values that hold integers); a \<open>number | null\<close> field is an \<open>int option\<close>.
  Quotients such as \<open>bytes / (1024 * 1024 * 1024)\<close> are taken in the reals: for an integer
  of magnitude below \<open>2 ^ 53\<close> the division by a power of two is exact in double precision.
  Truthiness: a number is falsy when it is \<open>0\<close> (or absent), a string when it is empty
  (or absent).
\<close>

definition isAlnum :: "char \<Rightarrow> bool" where
  \<comment> \<open>the complement of the character class \<open>[^a-zA-Z0-9]\<close>\<close>
  "isAlnum c =
     ((CHR ''a'' \<le> c \<and> c \<le> CHR ''z'') \<or> (CHR ''A'' \<le> c \<and> c \<le> CHR ''Z'') \<or>
      (CHR ''0'' \<le> c \<and> c \<le> CHR ''9''))"

definition upperChar :: "char \<Rightarrow> char" where
  "upperChar c =
     (case map_of (zip ''abcdefghijklmnopqrstuvwxyz'' ''ABCDEFGHIJKLMNOPQRSTUVWXYZ'') c of
        Some u \<Rightarrow> u
      | None \<Rightarrow> c)"


definition toUpperCase :: "string \<Rightarrow> string" where
  "toUpperCase s = map upperChar s"




definition substring :: "string \<Rightarrow> nat \<Rightarrow> nat \<Rightarrow> string" where
  \<comment> \<open>\<open>s.substring(a, b)\<close> for \<open>a \<le> b\<close>; both ends are clamped to the length\<close>
  "substring s a b = take (b - a) (drop a s)"

definition digit :: "nat \<Rightarrow> char" where
  "digit d = ''0123456789'' ! d"

function nat_digits :: "nat \<Rightarrow> string" where
  "nat_digits n = (if n < 10 then [digit n] else nat_digits (n div 10) @ [digit (n mod 10)])"
  by pat_completeness auto
termination
  by (relation "measure id") auto

declare nat_digits.simps [simp del]

definition toFixed2 :: "real \<Rightarrow> string" where
  \<comment> \<open>\<open>x.toFixed(2)\<close> of ECMAScript for \<open>|x| < 10 ^ 21\<close>, on the exact value of the
      number: the sign, then the integer \<open>n\<close> nearest to \<open>100 * |x|\<close> (the larger one on a
      tie) written in decimal, padded on the left to three digits, with the point before
      the last two. From \<open>10 ^ 21\<close> on JavaScript writes the number in exponent notation,
      which is outside this definition: what is proved of a rendered value is proved
      below that bound, where the quotients of byte counts up to \<open>2 ^ 53 - 1\<close> lie.\<close>
  "toFixed2 x =
     (let s = (if x < 0 then ''-'' else '''');
          a = \<bar>x\<bar>;
          n = nat \<lfloor>a * 100 + 1 / 2\<rfloor>;
          m = nat_digits n;
          k = length m;
          m' = (if k \<le> 2 then replicate (3 - k) CHR ''0'' @ m else m);
          k' = length m'
      in s @ take (k' - 2) m' @ ''.'' @ drop (k' - 2) m')"


section \<open>Domain entities (\<open>domain/entities/Device\<close>)\<close>

datatype DeviceType = UNKNOWN | PHONE | TABLET | DESKTOP | TV

datatype platform = IOS | Android | Web | OtherOS
  \<comment> \<open>\<open>Platform.OS\<close>: \<open>'ios'\<close>, \<open>'android'\<close>, \<open>'web'\<close>, or any other string\<close>

record DeviceInfo =
  brand :: "string option"
  manufacturer :: "string option"
  modelName :: "string option"
  modelId :: "string option"
  deviceName :: "string option"
  deviceYearClass :: "int option"
  deviceType :: "DeviceType option"
  isDevice :: bool
  osName :: "string option"
  osVersion :: "string option"
  osBuildId :: "string option"
  platformApiLevel :: "int option"
  totalMemory :: "int option"
  platform :: platform

datatype tier = Low | Mid | High

definition truthyNumber :: "int option \<Rightarrow> int option" where
  \<comment> \<open>a \<open>number | null\<close> used as a condition: \<open>Some n\<close> when it is truthy, that is present
      and not \<open>0\<close>\<close>
  "truthyNumber v = (case v of None \<Rightarrow> None | Some n \<Rightarrow> if n = 0 then None else Some n)"

definition truthyString :: "string option \<Rightarrow> string option" where
  \<comment> \<open>a \<open>string | null\<close> used as a condition: \<open>Some s\<close> when it is present and not empty\<close>
  "truthyString v = (case v of None \<Rightarrow> None | Some s \<Rightarrow> if s = [] then None else Some s)"

definition formatMemorySize :: "int option \<Rightarrow> string" where
  "formatMemorySize bytes =
     (case truthyNumber bytes of
        None \<Rightarrow> ''Unknown''
      | Some b \<Rightarrow>
          let gb = real_of_int b / (1024 * 1024 * 1024) in
          if gb \<ge> 1 then toFixed2 gb @ '' GB''
          else
            let mb = real_of_int b / (1024 * 1024) in
            toFixed2 mb @ '' MB'')"

text \<open>
  The reason strings of \<open>meetsMinimumRequirements\<close> are template literals; a reason is
  modelled by its template and the values interpolated into it:
  \<^item> \<open>NotPhysicalDevice\<close> is \<open>'Running on simulator/emulator'\<close>;
  \<^item> \<open>InsufficientMemory m g\<close> is \<open>`Insufficient memory: ${m}GB (minimum: ${g}GB)`\<close>, with
    \<open>m = memoryGB.toFixed(2)\<close> and \<open>g = minMemoryGB\<close>;
  \<^item> \<open>DeviceTooOld y\<close> is \<open>`Device too old: ${y} (minimum: 2018)`\<close>.
\<close>

datatype reason = NotPhysicalDevice | InsufficientMemory string real | DeviceTooOld int

record requirements =
  meets :: bool
  reasons :: "reason list"

definition meetsMinimumRequirements :: "DeviceInfo \<Rightarrow> real option \<Rightarrow> requirements" where
  \<comment> \<open>the second argument is \<open>minMemoryGB\<close>; \<open>None\<close> is an omitted argument (default 1)\<close>
  "meetsMinimumRequirements info minArg =
     (let minMemoryGB = (case minArg of None \<Rightarrow> 1 | Some g \<Rightarrow> g);
          r0 = [];
          r1 = (if \<not> isDevice info then r0 @ [NotPhysicalDevice] else r0);
          r2 = (case truthyNumber (totalMemory info) of
                  None \<Rightarrow> r1
                | Some m \<Rightarrow>
                    let memoryGB = real_of_int m / (1024 * 1024 * 1024) in
                    if memoryGB < minMemoryGB
                    then r1 @ [InsufficientMemory (toFixed2 memoryGB) minMemoryGB]
                    else r1);
          r3 = (case truthyNumber (deviceYearClass info) of
                  None \<Rightarrow> r2
                | Some y \<Rightarrow> if y < 2018 then r2 @ [DeviceTooOld y] else r2)
      in \<lparr>meets = (length r3 = 0), reasons = r3\<rparr>)"

definition getDeviceTier :: "DeviceInfo \<Rightarrow> tier" where
  "getDeviceTier info =
     (case truthyNumber (deviceYearClass info) of
        Some y \<Rightarrow> if y \<ge> 2022 then High else if y \<ge> 2019 then Mid else Low
      | None \<Rightarrow>
          (case truthyNumber (totalMemory info) of
             Some m \<Rightarrow>
               let memoryGB = real_of_int m / (1024 * 1024 * 1024) in
               if memoryGB \<ge> 6 then High else if memoryGB \<ge> 3 then Mid else Low
           | None \<Rightarrow> Mid))"


section \<open>Promises on a logical clock\<close>

text \<open>
  Time is a logical clock in milliseconds. A promise is described by how it settles: it is
  fulfilled with a value at an instant, rejected at an instant, or never settles. The value
  thrown or rejected with is not recorded: every handler of the source discards it.
  Invoking a function of type \<open>() => Promise<T>\<close> either throws synchronously or returns a
  promise. Reading a property of a native module throws, yields \<open>null\<close>/\<open>undefined\<close>, or
  yields a value.
\<close>

type_synonym time = nat

datatype 'a promise = Fulfilled time 'a | Rejected time | Pending

datatype 'a call = CallThrows | CallReturns "'a promise"

datatype 'a access = AccessThrows | AccessNullish | AccessValue 'a

datatype 'a response = Throws | Resolves nat 'a | Rejects nat | Hangs
  \<comment> \<open>what a native asynchronous function does when called: throw at once, or return a
      promise that settles after a delay, or one that never settles\<close>

definition invoke :: "'a response \<Rightarrow> time \<Rightarrow> 'a call" where
  "invoke r now =
     (case r of
        Throws \<Rightarrow> CallThrows
      | Resolves d v \<Rightarrow> CallReturns (Fulfilled (now + d) v)
      | Rejects d \<Rightarrow> CallReturns (Rejected (now + d))
      | Hangs \<Rightarrow> CallReturns Pending)"

definition asyncArrow :: "(time \<Rightarrow> 'a call) \<Rightarrow> time \<Rightarrow> 'a call" where
  \<comment> \<open>\<open>async () => f()\<close>: an exception thrown by the body rejects the returned promise\<close>
  "asyncArrow f now =
     (case f now of CallThrows \<Rightarrow> CallReturns (Rejected now) | CallReturns p \<Rightarrow> CallReturns p)"

definition await :: "'a promise \<Rightarrow> (time \<Rightarrow> 'a \<Rightarrow> 'b promise) \<Rightarrow> 'b promise" where
  \<comment> \<open>\<open>const v = await p; ...\<close>: the rest of the body runs when \<open>p\<close> is fulfilled; a
      rejection is thrown at the \<open>await\<close>\<close>
  "await p k = (case p of Fulfilled t v \<Rightarrow> k t v | Rejected t \<Rightarrow> Rejected t | Pending \<Rightarrow> Pending)"

definition tryCatch :: "'a promise \<Rightarrow> (time \<Rightarrow> 'a promise) \<Rightarrow> 'a promise" where
  \<comment> \<open>\<open>try { body } catch { handler }\<close> in an async function, and \<open>p.catch(handler)\<close>\<close>
  "tryCatch body handler =
     (case body of Fulfilled t v \<Rightarrow> Fulfilled t v | Rejected t \<Rightarrow> handler t | Pending \<Rightarrow> Pending)"

definition settledAt :: "'a promise \<Rightarrow> time option" where
  "settledAt p = (case p of Fulfilled t v \<Rightarrow> Some t | Rejected t \<Rightarrow> Some t | Pending \<Rightarrow> None)"

fun race :: "'a promise list \<Rightarrow> 'a promise" where
  \<comment> \<open>\<open>Promise.race\<close>: the promise that settles first; of two that settle at the same
      instant the one earlier in the array, which is subscribed to first. The order at
      an equal instant is a convention of the clock: a timer armed earlier for the same
      instant fires first in the source. The properties below are stated for instants
      strictly before or strictly after a bound and do not depend on it.\<close>
  "race [] = Pending"
| "race (p # ps) =
     (case settledAt p of
        None \<Rightarrow> race ps
      | Some t \<Rightarrow>
          (case settledAt (race ps) of
             None \<Rightarrow> p
           | Some u \<Rightarrow> if t \<le> u then p else race ps))"

definition promiseAll2 :: "'a promise \<Rightarrow> 'b promise \<Rightarrow> ('a \<Rightarrow> 'b \<Rightarrow> 'c) \<Rightarrow> 'c promise" where
  \<comment> \<open>\<open>Promise.all\<close> of two promises: fulfilled when both are, rejected as soon as one is\<close>
  "promiseAll2 p q f =
     (case p of
        Fulfilled t a \<Rightarrow>
          (case q of
             Fulfilled u b \<Rightarrow> Fulfilled (max t u) (f a b)
           | Rejected u \<Rightarrow> Rejected u
           | Pending \<Rightarrow> Pending)
      | Rejected t \<Rightarrow>
          (case q of
             Fulfilled u b \<Rightarrow> Rejected t
           | Rejected u \<Rightarrow> Rejected (min t u)
           | Pending \<Rightarrow> Rejected t)
      | Pending \<Rightarrow>
          (case q of
             Fulfilled u b \<Rightarrow> Pending
           | Rejected u \<Rightarrow> Rejected u
           | Pending \<Rightarrow> Pending))"

fun promiseAll :: "time \<Rightarrow> 'a promise list \<Rightarrow> 'a list promise" where
  \<comment> \<open>\<open>Promise.all\<close> of an array, called at \<open>now\<close>\<close>
  "promiseAll now [] = Fulfilled now []"
| "promiseAll now (p # ps) = promiseAll2 p (promiseAll now ps) (#)"


section \<open>Guarded call primitives (\<open>infrastructure/utils/nativeModuleUtils\<close>)\<close>

definition timeoutPromise :: "time \<Rightarrow> nat \<Rightarrow> 'a promise" where
  \<comment> \<open>\<open>new Promise((_, reject) => setTimeout(() => reject(...), timeoutMs))\<close>\<close>
  "timeoutPromise now timeoutMs = Rejected (now + timeoutMs)"

definition withTimeout :: "(time \<Rightarrow> 'a option call) \<Rightarrow> nat \<Rightarrow> time \<Rightarrow> 'a option promise" where
  \<comment> \<open>\<open>T | null\<close> is \<open>'a option\<close>; the default of \<open>timeoutMs\<close> is 1000\<close>
  "withTimeout operation timeoutMs now =
     tryCatch
       (case operation now of
          CallThrows \<Rightarrow> Rejected now
        | CallReturns p \<Rightarrow> race [p, timeoutPromise now timeoutMs])
       (\<lambda>t. Fulfilled t None)"

definition safeAccess :: "'a access \<Rightarrow> 'a \<Rightarrow> 'a" where
  "safeAccess accessor fallback =
     (case accessor of
        AccessValue v \<Rightarrow> v
      | AccessNullish \<Rightarrow> fallback
      | AccessThrows \<Rightarrow> fallback)"

definition nullable :: "'a access \<Rightarrow> 'a option access" where
  \<comment> \<open>an accessor of a \<open>U | null\<close> property read at the type \<open>U | null\<close>\<close>
  "nullable a =
     (case a of
        AccessValue v \<Rightarrow> AccessValue (Some v)
      | AccessNullish \<Rightarrow> AccessNullish
      | AccessThrows \<Rightarrow> AccessThrows)"

fun mapCalls :: "(time \<Rightarrow> 'a option call) list \<Rightarrow> time \<Rightarrow> 'a option promise list option" where
  \<comment> \<open>\<open>operations.map((op) => op().catch(() => null))\<close>: \<open>None\<close> when an \<open>op()\<close> throws,
      which ends the \<open>map\<close>\<close>
  "mapCalls [] now = Some []"
| "mapCalls (operation # operations) now =
     (case operation now of
        CallThrows \<Rightarrow> None
      | CallReturns p \<Rightarrow>
          (case mapCalls operations now of
             None \<Rightarrow> None
           | Some ps \<Rightarrow> Some (tryCatch p (\<lambda>t. Fulfilled t None) # ps)))"

definition withTimeoutAll ::
  "(time \<Rightarrow> 'a option call) list \<Rightarrow> nat \<Rightarrow> time \<Rightarrow> 'a option list promise" where
  \<comment> \<open>the default of \<open>timeoutMs\<close> is 2000\<close>
  "withTimeoutAll operations timeoutMs now =
     tryCatch
       (case mapCalls operations now of
          None \<Rightarrow> Rejected now
        | Some ps \<Rightarrow>
            tryCatch
              (race [promiseAll now ps, timeoutPromise now timeoutMs])
              (\<lambda>t. Fulfilled t (map (\<lambda>_. None) operations)))
       (\<lambda>t. Fulfilled t (map (\<lambda>_. None) operations))"


section \<open>The platform providers\<close>

text \<open>
  The native modules \<open>expo-device\<close> and \<open>expo-application\<close>, \<open>Platform.OS\<close>, \<open>Date.now()\<close>
  and \<open>Math.random().toString(36)\<close> are the environment of the services. What a provider
  does may depend on the instant at which it is used. A \<open>Date\<close> is its time in milliseconds.
\<close>

record providers =
  Platform_OS :: platform
  Device_getMaxMemoryAsync :: "time \<Rightarrow> int option response"
  Device_brand :: "time \<Rightarrow> string access"
  Device_manufacturer :: "time \<Rightarrow> string access"
  Device_modelName :: "time \<Rightarrow> string access"
  Device_modelId :: "time \<Rightarrow> string access"
  Device_deviceName :: "time \<Rightarrow> string access"
  Device_deviceYearClass :: "time \<Rightarrow> int access"
  Device_deviceType :: "time \<Rightarrow> DeviceType access"
  Device_isDevice :: "time \<Rightarrow> bool access"
  Device_osName :: "time \<Rightarrow> string access"
  Device_osVersion :: "time \<Rightarrow> string access"
  Device_osBuildId :: "time \<Rightarrow> string access"
  Device_platformApiLevel :: "time \<Rightarrow> int access"
  Application_getInstallationTimeAsync :: "time \<Rightarrow> int option response"
  Application_getLastUpdateTimeAsync :: "time \<Rightarrow> int option response"
  Application_applicationName :: "time \<Rightarrow> string access"
  Application_applicationId :: "time \<Rightarrow> string access"
  Application_nativeApplicationVersion :: "time \<Rightarrow> string access"
  Application_nativeBuildVersion :: "time \<Rightarrow> string access"
  Application_getAndroidId :: "time \<Rightarrow> string option response"
  Application_getIosIdForVendorAsync :: "time \<Rightarrow> string option response"
  Date_now :: "time \<Rightarrow> int"
  Math_random36 :: "time \<Rightarrow> string"


section \<open>Device snapshot builder (\<open>DeviceInfoService\<close>)\<close>

definition getMinimalDeviceInfo :: "providers \<Rightarrow> DeviceInfo" where
  "getMinimalDeviceInfo env =
     \<lparr>brand = None, manufacturer = None, modelName = None, modelId = None, deviceName = None,
      deviceYearClass = None, deviceType = None, isDevice = False, osName = None,
      osVersion = None, osBuildId = None, platformApiLevel = None, totalMemory = None,
      platform = Platform_OS env\<rparr>"

definition DeviceInfoService_getDeviceInfo :: "providers \<Rightarrow> time \<Rightarrow> DeviceInfo promise" where
  "DeviceInfoService_getDeviceInfo env now =
     tryCatch
       (await (withTimeout (\<lambda>t. invoke (Device_getMaxMemoryAsync env t) t) 1000 now)
          (\<lambda>t totalMemory.
             Fulfilled t
               \<lparr>brand = safeAccess (nullable (Device_brand env t)) None,
                manufacturer = safeAccess (nullable (Device_manufacturer env t)) None,
                modelName = safeAccess (nullable (Device_modelName env t)) None,
                modelId = safeAccess (nullable (Device_modelId env t)) None,
                deviceName = safeAccess (nullable (Device_deviceName env t)) None,
                deviceYearClass = safeAccess (nullable (Device_deviceYearClass env t)) None,
                deviceType = safeAccess (nullable (Device_deviceType env t)) None,
                isDevice = safeAccess (Device_isDevice env t) False,
                osName = safeAccess (nullable (Device_osName env t)) None,
                osVersion = safeAccess (nullable (Device_osVersion env t)) None,
                osBuildId = safeAccess (nullable (Device_osBuildId env t)) None,
                platformApiLevel = safeAccess (nullable (Device_platformApiLevel env t)) None,
                totalMemory = totalMemory,
                platform = Platform_OS env\<rparr>))
       (\<lambda>t. Fulfilled t (getMinimalDeviceInfo env))"


section \<open>Application snapshot builder (\<open>ApplicationInfoService\<close>)\<close>






section \<open>Identifier resolver (\<open>DeviceIdService\<close>)\<close>

definition DeviceIdService_getDeviceId :: "providers \<Rightarrow> time \<Rightarrow> string option promise" where
  "DeviceIdService_getDeviceId env now =
     tryCatch
       (if Platform_OS env = Android
        then await
               (withTimeout (asyncArrow (\<lambda>t. invoke (Application_getAndroidId env t) t)) 1000 now)
               (\<lambda>t result. Fulfilled t (truthyString result))
        else if Platform_OS env = IOS
        then await
               (withTimeout
                  (asyncArrow (\<lambda>t. invoke (Application_getIosIdForVendorAsync env t) t)) 1000 now)
               (\<lambda>t result. Fulfilled t (truthyString result))
        else Fulfilled now None)
       (\<lambda>t. Fulfilled t None)"

definition DeviceIdService_getOfflineUserId ::
  "providers \<Rightarrow> string option \<Rightarrow> time \<Rightarrow> string option promise" where
  \<comment> \<open>the second argument is \<open>fallbackId\<close>; \<open>None\<close> is an omitted argument\<close>
  "DeviceIdService_getOfflineUserId env fallbackArg now =
     (let fallbackId = (case fallbackArg of None \<Rightarrow> ''offline_user'' | Some s \<Rightarrow> s) in
      if Platform_OS env = Web then Fulfilled now None
      else
        await (DeviceIdService_getDeviceId env now)
          (\<lambda>t deviceId.
             case truthyString deviceId of
               Some d \<Rightarrow> Fulfilled t (Some (''offline_'' @ d))
             | None \<Rightarrow> Fulfilled t (Some fallbackId)))"


section \<open>Capability checks (\<open>DeviceCapabilityService\<close>)\<close>





section \<open>String utilities (\<open>infrastructure/utils/stringUtils\<close>)\<close>

definition cleanModelName :: "string option \<Rightarrow> string" where
  "cleanModelName model =
     (case truthyString model of None \<Rightarrow> ''Device'' | Some m \<Rightarrow> filter isAlnum m)"

definition generateRandomId :: "providers \<Rightarrow> nat \<Rightarrow> time \<Rightarrow> string" where
  \<comment> \<open>\<open>Math.random().toString(36).substring(2, 2 + length).toUpperCase()\<close>\<close>
  "generateRandomId env len now = toUpperCase (substring (Math_random36 env now) 2 (2 + len))"

definition extractIdPart :: "providers \<Rightarrow> string option \<Rightarrow> nat \<Rightarrow> time \<Rightarrow> string" where
  \<comment> \<open>\<open>length d - len\<close> on naturals is \<open>Math.max(0, deviceId.length - length)\<close>\<close>
  "extractIdPart env deviceId len now =
     (case truthyString deviceId of
        None \<Rightarrow> generateRandomId env len now
      | Some d \<Rightarrow> toUpperCase (drop (length d - len) d))"

definition getPlatformPrefix :: "platform \<Rightarrow> string" where
  "getPlatformPrefix p = (case p of IOS \<Rightarrow> ''iOS'' | Android \<Rightarrow> ''Android'' | _ \<Rightarrow> ''Device'')"


section \<open>Friendly identifier generator (\<open>UserFriendlyIdService\<close>)\<close>

datatype fetched = FetchedInfo DeviceInfo | FetchedId string
  \<comment> \<open>the element type of the array that \<open>withTimeoutAll\<close> is called with here\<close>

definition element :: "'a option list \<Rightarrow> nat \<Rightarrow> 'a option" where
  \<comment> \<open>array destructuring: a position past the end yields \<open>undefined\<close>\<close>
  "element xs i = (if i < length xs then xs ! i else None)"

definition jsOr :: "string option \<Rightarrow> string option \<Rightarrow> string option" where
  \<comment> \<open>\<open>a || b\<close> on \<open>string | null\<close>\<close>
  "jsOr a b = (case truthyString a of Some s \<Rightarrow> Some s | None \<Rightarrow> b)"

definition generateFallbackId :: "providers \<Rightarrow> time \<Rightarrow> string" where
  "generateFallbackId env now =
     getPlatformPrefix (Platform_OS env) @ ''-'' @ generateRandomId env 6 now"

definition UserFriendlyIdService_getUserFriendlyId :: "providers \<Rightarrow> time \<Rightarrow> string promise" where
  "UserFriendlyIdService_getUserFriendlyId env now =
     (if Platform_OS env = Web then Fulfilled now (''WebUser-'' @ generateRandomId env 6 now)
      else
        tryCatch
          (await
             (withTimeoutAll
                [\<lambda>t. CallReturns
                        (map_promise (\<lambda>d. Some (FetchedInfo d))
                           (DeviceInfoService_getDeviceInfo env t)),
                 \<lambda>t. CallReturns
                        (map_promise (map_option FetchedId) (DeviceIdService_getDeviceId env t))]
                2000 now)
             (\<lambda>t results.
                let deviceInfo =
                      (case element results 0 of Some (FetchedInfo d) \<Rightarrow> Some d | _ \<Rightarrow> None);
                    deviceId =
                      (case element results 1 of Some (FetchedId i) \<Rightarrow> Some i | _ \<Rightarrow> None)
                in
                case deviceInfo of
                  None \<Rightarrow> Fulfilled t (generateFallbackId env t)
                | Some d \<Rightarrow>
                    (case truthyString (jsOr (modelName d) (deviceName d)) of
                       None \<Rightarrow> Fulfilled t (generateFallbackId env t)
                     | Some m \<Rightarrow>
                         let model = jsOr (modelName d) (jsOr (deviceName d) (Some ''Device''));
                             cleanModel = cleanModelName model;
                             idPart = extractIdPart env deviceId 6 t
                         in Fulfilled t (cleanModel @ ''-'' @ idPart))))
          (\<lambda>t. Fulfilled t (generateFallbackId env t)))"


section \<open>The facade (\<open>DeviceService\<close>)\<close>









definition DeviceService_getUserFriendlyId :: "providers \<Rightarrow> time \<Rightarrow> string promise" where
  "DeviceService_getUserFriendlyId env now = UserFriendlyIdService_getUserFriendlyId env now"


section \<open>Notions used to state the properties\<close>

definition fulfilledBy :: "time \<Rightarrow> 'a promise \<Rightarrow> bool" where
  \<comment> \<open>the promise is fulfilled, and no later than the given instant\<close>
  "fulfilledBy deadline p =
     (case p of Fulfilled t v \<Rightarrow> t \<le> deadline | Rejected t \<Rightarrow> False | Pending \<Rightarrow> False)"

fun batchTime :: "time \<Rightarrow> 'a promise list \<Rightarrow> time option" where
  \<comment> \<open>the instant at which every promise of a batch started at \<open>now\<close> has settled;
      \<open>None\<close> when one of them never settles\<close>
  "batchTime now [] = Some now"
| "batchTime now (p # ps) =
     (case settledAt p of
        None \<Rightarrow> None
      | Some t \<Rightarrow> (case batchTime now ps of None \<Rightarrow> None | Some u \<Rightarrow> Some (max t u)))"

definition entryOf :: "'a option promise \<Rightarrow> 'a option" where
  \<comment> \<open>the entry of the result array for an operation that returned the promise \<open>p\<close>: its
      result, or \<open>null\<close> when \<open>p\<close> is rejected\<close>
  "entryOf p = (case p of Fulfilled t v \<Rightarrow> v | Rejected t \<Rightarrow> None | Pending \<Rightarrow> None)"

definition providerOrDefault :: "'a access \<Rightarrow> 'a \<Rightarrow> 'a \<Rightarrow> bool" where
  \<comment> \<open>a field holds the value its accessor yields, or else the field's default\<close>
  "providerOrDefault a dflt v =
     (case a of AccessValue x \<Rightarrow> v = x | AccessNullish \<Rightarrow> v = dflt | AccessThrows \<Rightarrow> v = dflt)"

definition accessFails :: "'a access \<Rightarrow> bool" where
  "accessFails a = (case a of AccessValue x \<Rightarrow> False | AccessNullish \<Rightarrow> True | AccessThrows \<Rightarrow> True)"

definition deviceAccessesFail :: "providers \<Rightarrow> time \<Rightarrow> bool" where
  \<comment> \<open>every property of \<open>expo-device\<close> throws or is \<open>null\<close>/\<open>undefined\<close> at the instant\<close>
  "deviceAccessesFail env t =
     (accessFails (Device_brand env t) \<and> accessFails (Device_manufacturer env t) \<and>
      accessFails (Device_modelName env t) \<and> accessFails (Device_modelId env t) \<and>
      accessFails (Device_deviceName env t) \<and> accessFails (Device_deviceYearClass env t) \<and>
      accessFails (Device_deviceType env t) \<and> accessFails (Device_isDevice env t) \<and>
      accessFails (Device_osName env t) \<and> accessFails (Device_osVersion env t) \<and>
      accessFails (Device_osBuildId env t) \<and> accessFails (Device_platformApiLevel env t))"

definition minMemoryGB_of :: "real option \<Rightarrow> real" where
  \<comment> \<open>the threshold in force: 1 when the argument is omitted\<close>
  "minMemoryGB_of minArg = (case minArg of None \<Rightarrow> 1 | Some g \<Rightarrow> g)"

definition insufficientMemory :: "DeviceInfo \<Rightarrow> real \<Rightarrow> bool" where
  \<comment> \<open>the memory is present, not \<open>0\<close>, and below \<open>minMemoryGB\<close> gigabytes\<close>
  "insufficientMemory info minMemoryGB =
     (case totalMemory info of
        None \<Rightarrow> False
      | Some m \<Rightarrow> m \<noteq> 0 \<and> real_of_int m / (1024 * 1024 * 1024) < minMemoryGB)"

definition deviceTooOld :: "DeviceInfo \<Rightarrow> bool" where
  \<comment> \<open>the year class is present, not \<open>0\<close>, and below 2018\<close>
  "deviceTooOld info =
     (case deviceYearClass info of None \<Rightarrow> False | Some y \<Rightarrow> y \<noteq> 0 \<and> y < 2018)"

definition isInsufficientMemory :: "reason \<Rightarrow> bool" where
  "isInsufficientMemory r = (case r of InsufficientMemory m g \<Rightarrow> True | _ \<Rightarrow> False)"

definition isDeviceTooOld :: "reason \<Rightarrow> bool" where
  "isDeviceTooOld r = (case r of DeviceTooOld y \<Rightarrow> True | _ \<Rightarrow> False)"


section \<open>The operations as the specification words them\<close>

text \<open>
  The specification describes the classification functions in terms of a field being
  known, that is present whatever its value; the entries of \<open>withTimeoutAll\<close> operation by
  operation; and a device snapshot as fully populated or entirely defaulted. The following
  definitions follow those words; they are compared with the functions above.
\<close>

definition formatMemorySize_spec :: "int option \<Rightarrow> string" where
  \<comment> \<open>absent: "Unknown"; at least 1 GiB: GiB to 2 decimals; else MiB to 2 decimals\<close>
  "formatMemorySize_spec bytes =
     (case bytes of
        None \<Rightarrow> ''Unknown''
      | Some b \<Rightarrow>
          if b \<ge> 1024 * 1024 * 1024
          then toFixed2 (real_of_int b / (1024 * 1024 * 1024)) @ '' GB''
          else toFixed2 (real_of_int b / (1024 * 1024)) @ '' MB'')"

definition getDeviceTier_spec :: "DeviceInfo \<Rightarrow> tier" where
  \<comment> \<open>year class known: by year, ignoring memory; else memory known: by GB; else mid\<close>
  "getDeviceTier_spec info =
     (case deviceYearClass info of
        Some y \<Rightarrow> if y \<ge> 2022 then High else if y \<ge> 2019 then Mid else Low
      | None \<Rightarrow>
          (case totalMemory info of
             Some m \<Rightarrow>
               if real_of_int m / (1024 * 1024 * 1024) \<ge> 6 then High
               else if real_of_int m / (1024 * 1024 * 1024) \<ge> 3 then Mid
               else Low
           | None \<Rightarrow> Mid))"

definition insufficientMemory_spec :: "DeviceInfo \<Rightarrow> real \<Rightarrow> bool" where
  \<comment> \<open>memory is known and below \<open>minMemoryGB\<close> gigabytes\<close>
  "insufficientMemory_spec info minMemoryGB =
     (case totalMemory info of
        None \<Rightarrow> False
      | Some m \<Rightarrow> real_of_int m / (1024 * 1024 * 1024) < minMemoryGB)"

definition deviceTooOld_spec :: "DeviceInfo \<Rightarrow> bool" where
  \<comment> \<open>device year class is known and below the cutoff year 2018\<close>
  "deviceTooOld_spec info = (case deviceYearClass info of None \<Rightarrow> False | Some y \<Rightarrow> y < 2018)"

definition entryOf_spec :: "'a option call \<Rightarrow> 'a option" where
  \<comment> \<open>the entry as the specification words it: the operation's result, or \<open>null\<close> for an
      operation that throws\<close>
  "entryOf_spec c =
     (case c of
        CallThrows \<Rightarrow> None
      | CallReturns p \<Rightarrow> entryOf p)"

definition carriesProviderValue :: "'a access \<Rightarrow> 'a option \<Rightarrow> bool" where
  \<comment> \<open>the field holds what its accessor yielded; an accessor that throws yields nothing\<close>
  "carriesProviderValue a v =
     (case a of AccessValue x \<Rightarrow> v = Some x | AccessNullish \<Rightarrow> v = None | AccessThrows \<Rightarrow> False)"

definition fullyPopulated_spec :: "providers \<Rightarrow> time \<Rightarrow> time \<Rightarrow> DeviceInfo \<Rightarrow> bool" where
  \<comment> \<open>the snapshot built at \<open>t\<close> by a call made at \<open>now\<close> is fully populated with fresh
      provider values: every field holds what its provider yielded\<close>
  "fullyPopulated_spec env now t d =
     (carriesProviderValue (Device_brand env t) (brand d) \<and>
      carriesProviderValue (Device_manufacturer env t) (manufacturer d) \<and>
      carriesProviderValue (Device_modelName env t) (modelName d) \<and>
      carriesProviderValue (Device_modelId env t) (modelId d) \<and>
      carriesProviderValue (Device_deviceName env t) (deviceName d) \<and>
      carriesProviderValue (Device_deviceYearClass env t) (deviceYearClass d) \<and>
      carriesProviderValue (Device_deviceType env t) (deviceType d) \<and>
      carriesProviderValue (Device_isDevice env t) (Some (isDevice d)) \<and>
      carriesProviderValue (Device_osName env t) (osName d) \<and>
      carriesProviderValue (Device_osVersion env t) (osVersion d) \<and>
      carriesProviderValue (Device_osBuildId env t) (osBuildId d) \<and>
      carriesProviderValue (Device_platformApiLevel env t) (platformApiLevel d) \<and>
      invoke (Device_getMaxMemoryAsync env now) now = CallReturns (Fulfilled t (totalMemory d)) \<and>
      platform d = Platform_OS env)"

definition entirelyDefaulted_spec :: "providers \<Rightarrow> DeviceInfo \<Rightarrow> bool" where
  \<comment> \<open>the all-unknown variant, tagged with the current runtime platform\<close>
  "entirelyDefaulted_spec env d = (d = getMinimalDeviceInfo env)"


section \<open>Concrete snapshots and providers\<close>

definition sampleDevice :: DeviceInfo where
  \<comment> \<open>a snapshot of a physical phone, for the concrete cases\<close>
  "sampleDevice =
     \<lparr>brand = Some ''Apple'', manufacturer = Some ''Apple'', modelName = Some ''iPhone 13 Pro!'',
      modelId = None, deviceName = None, deviceYearClass = None, deviceType = Some PHONE,
      isDevice = True, osName = Some ''iOS'', osVersion = Some ''17.0'', osBuildId = None,
      platformApiLevel = None, totalMemory = None, platform = IOS\<rparr>"

definition sampleProviders :: providers where
  \<comment> \<open>an iPhone whose native modules answer, for the concrete cases\<close>
  "sampleProviders =
     \<lparr>Platform_OS = IOS,
      Device_getMaxMemoryAsync = (\<lambda>t. Resolves 5 (Some 6442450944)),
      Device_brand = (\<lambda>t. AccessValue ''Apple''),
      Device_manufacturer = (\<lambda>t. AccessValue ''Apple''),
      Device_modelName = (\<lambda>t. AccessValue ''iPhone 13 Pro!''),
      Device_modelId = (\<lambda>t. AccessValue ''iPhone14,2''),
      Device_deviceName = (\<lambda>t. AccessNullish),
      Device_deviceYearClass = (\<lambda>t. AccessValue 2021),
      Device_deviceType = (\<lambda>t. AccessValue PHONE),
      Device_isDevice = (\<lambda>t. AccessValue True),
      Device_osName = (\<lambda>t. AccessValue ''iOS''),
      Device_osVersion = (\<lambda>t. AccessValue ''17.0''),
      Device_osBuildId = (\<lambda>t. AccessNullish),
      Device_platformApiLevel = (\<lambda>t. AccessNullish),
      Application_getInstallationTimeAsync = (\<lambda>t. Resolves 3 (Some 1700000000000)),
      Application_getLastUpdateTimeAsync = (\<lambda>t. Hangs),
      Application_applicationName = (\<lambda>t. AccessValue ''Demo''),
      Application_applicationId = (\<lambda>t. AccessValue ''com.example.demo''),
      Application_nativeApplicationVersion = (\<lambda>t. AccessValue ''1.0.0''),
      Application_nativeBuildVersion = (\<lambda>t. AccessValue ''1''),
      Application_getAndroidId = (\<lambda>t. Throws),
      Application_getIosIdForVendorAsync = (\<lambda>t. Resolves 20 (Some ''A1B2C3D4-xyzABC'')),
      Date_now = (\<lambda>t. 1700000000000 + int t),
      Math_random36 = (\<lambda>t. ''0.4fzyo82mvyr'')\<rparr>"

definition failingProviders :: providers where
  \<comment> \<open>native modules that are not ready: every call and every property access throws\<close>
  "failingProviders =
     \<lparr>Platform_OS = Android,
      Device_getMaxMemoryAsync = (\<lambda>t. Throws),
      Device_brand = (\<lambda>t. AccessThrows),
      Device_manufacturer = (\<lambda>t. AccessThrows),
      Device_modelName = (\<lambda>t. AccessThrows),
      Device_modelId = (\<lambda>t. AccessThrows),
      Device_deviceName = (\<lambda>t. AccessThrows),
      Device_deviceYearClass = (\<lambda>t. AccessThrows),
      Device_deviceType = (\<lambda>t. AccessThrows),
      Device_isDevice = (\<lambda>t. AccessThrows),
      Device_osName = (\<lambda>t. AccessThrows),
      Device_osVersion = (\<lambda>t. AccessThrows),
      Device_osBuildId = (\<lambda>t. AccessThrows),
      Device_platformApiLevel = (\<lambda>t. AccessThrows),
      Application_getInstallationTimeAsync = (\<lambda>t. Throws),
      Application_getLastUpdateTimeAsync = (\<lambda>t. Throws),
      Application_applicationName = (\<lambda>t. AccessThrows),
      Application_applicationId = (\<lambda>t. AccessThrows),
      Application_nativeApplicationVersion = (\<lambda>t. AccessThrows),
      Application_nativeBuildVersion = (\<lambda>t. AccessThrows),
      Application_getAndroidId = (\<lambda>t. Throws),
      Application_getIosIdForVendorAsync = (\<lambda>t. Throws),
      Date_now = (\<lambda>t. int t),
      Math_random36 = (\<lambda>t. ''0.4fzyo82mvyr'')\<rparr>"


section \<open>Rendering numbers\<close>

lemma nat_digits_small: "n < 10 \<Longrightarrow> nat_digits n = [digit n]"
  by (simp add: nat_digits.simps)

lemma nat_digits_large:
  "10 \<le> n \<Longrightarrow> nat_digits n = nat_digits (n div 10) @ [digit (n mod 10)]"
  by (subst nat_digits.simps) simp

lemma nat_digits_two:
  "10 \<le> n \<Longrightarrow> n < 100 \<Longrightarrow> nat_digits n = [digit (n div 10), digit (n mod 10)]"
  by (simp add: nat_digits_large nat_digits_small)

lemma nat_digits_hundreds:
  assumes "100 \<le> n"
  shows "nat_digits n = nat_digits (n div 100) @ [digit (n mod 100 div 10), digit (n mod 10)]"
proof -
  have a: "nat_digits n = nat_digits (n div 10) @ [digit (n mod 10)]"
    using assms by (intro nat_digits_large) simp
  have "10 \<le> n div 10" using assms by simp
  then have "nat_digits (n div 10) = nat_digits (n div 10 div 10) @ [digit (n div 10 mod 10)]"
    by (rule nat_digits_large)
  moreover have "n div 10 div 10 = n div 100" by (simp add: div_mult2_eq)
  moreover have "n div 10 mod 10 = n mod 100 div 10"
  proof -
    have "n mod 100 = 10 * (n div 10 mod 10) + n mod 10"
      using mod_mult2_eq [of n 10 10] by simp
    then show ?thesis by simp
  qed
  ultimately have b: "nat_digits (n div 10) = nat_digits (n div 100) @ [digit (n mod 100 div 10)]"
    by (simp only:)
  show ?thesis by (simp only: a b append_assoc append.simps)
qed

lemma length_nat_digits_pos: "0 < length (nat_digits n)"
  by (subst nat_digits.simps) simp

lemma toFixed2_digits:
  assumes "0 \<le> x"
  shows "toFixed2 x =
     nat_digits (nat \<lfloor>x * 100 + 1 / 2\<rfloor> div 100) @ ''.'' @
     [digit (nat \<lfloor>x * 100 + 1 / 2\<rfloor> mod 100 div 10), digit (nat \<lfloor>x * 100 + 1 / 2\<rfloor> mod 10)]"
proof -
  define n where "n = nat \<lfloor>x * 100 + 1 / 2\<rfloor>"
  define m where "m = nat_digits n"
  define m' where "m' = (if length m \<le> 2 then replicate (3 - length m) CHR ''0'' @ m else m)"
  define h where "h = nat_digits (n div 100)"
  define l where "l = [digit (n mod 100 div 10), digit (n mod 10)]"
  have x: "\<not> x < 0" "\<bar>x\<bar> = x" using assms by simp_all
  have tf: "toFixed2 x = take (length m' - 2) m' @ ''.'' @ drop (length m' - 2) m'"
    unfolding toFixed2_def Let_def m'_def m_def n_def by (simp only: x if_False append_Nil)
  have zero: "digit 0 = CHR ''0''" by (simp add: digit_def)
  have l: "length l = 2" by (simp add: l_def)
  consider "n < 10" | "10 \<le> n" "n < 100" | "100 \<le> n" by linarith
  then have "m' = h @ l"
  proof cases
    case 1
    then have "m = [digit n]" by (simp add: m_def nat_digits_small)
    moreover have "h = [CHR ''0'']" using 1 by (simp add: h_def nat_digits_small zero)
    moreover have "l = [CHR ''0'', digit n]" using 1 by (simp add: l_def zero)
    ultimately show ?thesis by (simp add: m'_def numeral_2_eq_2)
  next
    case 2
    then have "m = [digit (n div 10), digit (n mod 10)]" by (simp add: m_def nat_digits_two)
    moreover have "h = [CHR ''0'']" using 2 by (simp add: h_def nat_digits_small zero)
    moreover have "l = [digit (n div 10), digit (n mod 10)]" using 2 by (simp add: l_def)
    ultimately show ?thesis by (simp add: m'_def)
  next
    case 3
    have "m = h @ l"
      unfolding m_def h_def l_def by (rule nat_digits_hundreds [OF 3])
    moreover have "0 < length h" unfolding h_def by (rule length_nat_digits_pos)
    ultimately show ?thesis using l by (simp add: m'_def)
  qed
  then have "take (length m' - 2) m' @ ''.'' @ drop (length m' - 2) m' = h @ ''.'' @ l"
    using l by simp
  then show ?thesis
    unfolding tf h_def l_def n_def by simp
qed

lemma toFixed2_nearest:
  assumes "0 \<le> x"
  shows "\<bar>real (nat \<lfloor>x * 100 + 1 / 2\<rfloor>) / 100 - x\<bar> \<le> 1 / 200"
proof -
  define k where "k = \<lfloor>x * 100 + 1 / 2\<rfloor>"
  have nn: "0 \<le> k" using assms by (simp add: k_def)
  have "real_of_int k \<le> x * 100 + 1 / 2" "x * 100 + 1 / 2 < real_of_int k + 1"
    unfolding k_def by linarith+
  moreover have "real (nat k) = real_of_int k"
    using nn by simp
  ultimately have "real (nat k) / 100 - x \<le> 1 / 200" "- (1 / 200) \<le> real (nat k) / 100 - x"
    by linarith+
  then have "\<bar>real (nat k) / 100 - x\<bar> \<le> 1 / 200"
    by linarith
  then show ?thesis by (simp only: k_def)
qed

lemmas render_simps = toFixed2_def Let_def nat_digits_small nat_digits_large digit_def


section \<open>Properties of the classification functions\<close>

lemma truthyNumber_Some_iff: "truthyNumber v = Some n \<longleftrightarrow> v = Some n \<and> n \<noteq> 0"
  by (auto simp: truthyNumber_def split: option.splits)

lemma truthyNumber_None_iff: "truthyNumber v = None \<longleftrightarrow> v = None \<or> v = Some 0"
  by (auto simp: truthyNumber_def split: option.splits)

lemma gigabytes_ge: "real_of_int m / (1024 * 1024 * 1024) \<ge> real_of_int k \<longleftrightarrow> m \<ge> k * 1073741824"
proof -
  have "real_of_int m / (1024 * 1024 * 1024) \<ge> real_of_int k \<longleftrightarrow> real_of_int (k * 1073741824) \<le> real_of_int m"
    by (simp add: field_simps)
  then show ?thesis by (simp only: of_int_le_iff)
qed

lemma formatMemorySize_1GiB: "formatMemorySize (Some 1073741824) = ''1.00 GB''"
  by (simp add: formatMemorySize_def truthyNumber_def render_simps)

lemma formatMemorySize_512MiB: "formatMemorySize (Some 536870912) = ''512.00 MB''"
  by (simp add: formatMemorySize_def truthyNumber_def render_simps)

text \<open>
  C7 (amended). \<open>formatMemorySize\<close>, for byte counts that are integers of magnitude at
  most \<open>2 ^ 53 - 1\<close>: an absent byte count and the byte count \<open>0\<close> yield \<open>"Unknown"\<close>; any
  other byte count of at least 1 GiB yields the GiB value to 2 decimals followed by
  \<open>" GB"\<close>; any other byte count below 1 GiB yields the MiB value to 2 decimals followed by
  \<open>" MB"\<close> (units are 1024-based). The GiB and MiB values of such byte counts are below
  \<open>10 ^ 21\<close> in magnitude, where "to 2 decimals" is the fixed-point notation of
  \<open>toFixed(2)\<close>: for a value \<open>0 \<le> x < 10 ^ 21\<close> the digits of the integer \<open>n\<close> nearest to
  \<open>100 * x\<close>, with a point before the last two. In particular
  \<open>formatMemorySize(1073741824) = "1.00 GB"\<close>, \<open>formatMemorySize(536870912) = "512.00 MB"\<close>
  and \<open>formatMemorySize(null) = "Unknown"\<close>.
\<close>

theorem formatMemorySize_cases:
  "formatMemorySize None = ''Unknown'' \<and>
   formatMemorySize (Some 0) = ''Unknown'' \<and>
   (b \<noteq> 0 \<and> \<bar>b\<bar> \<le> 9007199254740991 \<and> 1073741824 \<le> b \<longrightarrow>
      \<bar>real_of_int b / 1073741824\<bar> < 10 ^ 21 \<and>
      formatMemorySize (Some b) = toFixed2 (real_of_int b / 1073741824) @ '' GB'') \<and>
   (b \<noteq> 0 \<and> \<bar>b\<bar> \<le> 9007199254740991 \<and> b < 1073741824 \<longrightarrow>
      \<bar>real_of_int b / 1048576\<bar> < 10 ^ 21 \<and>
      formatMemorySize (Some b) = toFixed2 (real_of_int b / 1048576) @ '' MB'') \<and>
   (0 \<le> x \<and> x < 10 ^ 21 \<longrightarrow>
      toFixed2 x =
        nat_digits (nat \<lfloor>x * 100 + 1 / 2\<rfloor> div 100) @ ''.'' @
        [digit (nat \<lfloor>x * 100 + 1 / 2\<rfloor> mod 100 div 10),
         digit (nat \<lfloor>x * 100 + 1 / 2\<rfloor> mod 10)] \<and>
      \<bar>real (nat \<lfloor>x * 100 + 1 / 2\<rfloor>) / 100 - x\<bar> \<le> 1 / 200) \<and>
   formatMemorySize (Some 1073741824) = ''1.00 GB'' \<and>
   formatMemorySize (Some 536870912) = ''512.00 MB''"
proof -
  have absent: "formatMemorySize None = ''Unknown''"
    by (simp add: formatMemorySize_def truthyNumber_def)
  have zero: "formatMemorySize (Some 0) = ''Unknown''"
    by (simp add: formatMemorySize_def truthyNumber_def)
  have small: "\<bar>real_of_int b / 1073741824\<bar> < 10 ^ 21 \<and> \<bar>real_of_int b / 1048576\<bar> < 10 ^ 21"
    if "\<bar>b\<bar> \<le> 9007199254740991"
  proof -
    have "\<bar>real_of_int b\<bar> \<le> 9007199254740991"
      using that by (metis of_int_abs of_int_le_iff of_int_numeral)
    then have "\<bar>real_of_int b\<bar> < 1073741824000000000000000000000"
      "\<bar>real_of_int b\<bar> < 1048576000000000000000000000"
      by linarith+
    then show ?thesis by simp
  qed
  have gib: "formatMemorySize (Some b) = toFixed2 (real_of_int b / 1073741824) @ '' GB''"
    if "b \<noteq> 0" "1073741824 \<le> b"
    using that by (simp add: formatMemorySize_def truthyNumber_def Let_def)
  have mib: "formatMemorySize (Some b) = toFixed2 (real_of_int b / 1048576) @ '' MB''"
    if "b \<noteq> 0" "b < 1073741824"
    using that by (simp add: formatMemorySize_def truthyNumber_def Let_def)
  show ?thesis
    using absent zero small gib mib toFixed2_digits [of x] toFixed2_nearest [of x]
      formatMemorySize_1GiB formatMemorySize_512MiB
    by blast
qed

theorem formatMemorySize_cases_witness:
  "formatMemorySize (Some 1610612736) = ''1.50 GB'' \<and>
   formatMemorySize (Some 1572864) = ''1.50 MB'' \<and>
   toFixed2 (3 / 2) = ''1.50''"
  using formatMemorySize_cases [of 1610612736 "3 / 2"] formatMemorySize_cases [of 1572864 "3 / 2"]
  by (simp add: render_simps)

text \<open>
  C7 as worded fails at the byte count \<open>0\<close>, which is neither absent nor at least 1 GiB:
  the function yields \<open>"Unknown"\<close> where the wording asks for the MiB value \<open>"0.00 MB"\<close>.
\<close>

theorem formatMemorySize_zero_counterexample:
  "formatMemorySize (Some 0) = ''Unknown'' \<and> formatMemorySize_spec (Some 0) = ''0.00 MB''"
  by (simp add: formatMemorySize_def formatMemorySize_spec_def truthyNumber_def render_simps)

text \<open>
  C5 (amended). \<open>getDeviceTier\<close>: when the year class is present and not \<open>0\<close>, the tier is
  high from 2022, mid from 2019 and low below, whatever the memory; otherwise, when the
  memory is present and not \<open>0\<close>, the tier is high from 6 GB, mid from 3 GB and low below
  (1 GB = \<open>1024 ^ 3\<close> bytes); otherwise the tier is mid. In particular the tier is high for
  year class 2023 without memory, low for 2 GB without year class, and mid without either.
\<close>

theorem getDeviceTier_cases:
  "(deviceYearClass info = Some y \<and> y \<noteq> 0 \<longrightarrow>
      getDeviceTier info = (if y \<ge> 2022 then High else if y \<ge> 2019 then Mid else Low)) \<and>
   ((deviceYearClass info = None \<or> deviceYearClass info = Some 0) \<and>
    totalMemory info = Some m \<and> m \<noteq> 0 \<longrightarrow>
      getDeviceTier info =
        (if m \<ge> 6 * 1073741824 then High else if m \<ge> 3 * 1073741824 then Mid else Low)) \<and>
   ((deviceYearClass info = None \<or> deviceYearClass info = Some 0) \<and>
    (totalMemory info = None \<or> totalMemory info = Some 0) \<longrightarrow>
      getDeviceTier info = Mid) \<and>
   getDeviceTier (d\<lparr>deviceYearClass := Some 2023, totalMemory := None\<rparr>) = High \<and>
   getDeviceTier (d\<lparr>deviceYearClass := None, totalMemory := Some (2 * 1024 ^ 3)\<rparr>) = Low \<and>
   getDeviceTier (d\<lparr>deviceYearClass := None, totalMemory := None\<rparr>) = Mid"
proof -
  have year: "getDeviceTier info = (if y \<ge> 2022 then High else if y \<ge> 2019 then Mid else Low)"
    if "deviceYearClass info = Some y" "y \<noteq> 0"
    using that by (simp add: getDeviceTier_def truthyNumber_def)
  have six: "real_of_int m / (1024 * 1024 * 1024) \<ge> 6 \<longleftrightarrow> m \<ge> 6 * 1073741824"
    using gigabytes_ge [of 6 m] by simp
  have three: "real_of_int m / (1024 * 1024 * 1024) \<ge> 3 \<longleftrightarrow> m \<ge> 3 * 1073741824"
    using gigabytes_ge [of 3 m] by simp
  have memory: "getDeviceTier info =
      (if m \<ge> 6 * 1073741824 then High else if m \<ge> 3 * 1073741824 then Mid else Low)"
    if "deviceYearClass info = None \<or> deviceYearClass info = Some 0"
      "totalMemory info = Some m" "m \<noteq> 0"
  proof -
    have y: "truthyNumber (deviceYearClass info) = None"
      using that(1) by (simp add: truthyNumber_None_iff)
    have t: "truthyNumber (totalMemory info) = Some m"
      using that(2,3) by (simp add: truthyNumber_Some_iff)
    show ?thesis
      unfolding getDeviceTier_def y t Let_def using six three by simp
  qed
  have neither: "getDeviceTier info = Mid"
    if "deviceYearClass info = None \<or> deviceYearClass info = Some 0"
      "totalMemory info = None \<or> totalMemory info = Some 0"
  proof -
    have y: "truthyNumber (deviceYearClass info) = None"
      using that(1) by (simp add: truthyNumber_None_iff)
    have t: "truthyNumber (totalMemory info) = None"
      using that(2) by (simp add: truthyNumber_None_iff)
    show ?thesis unfolding getDeviceTier_def y t by simp
  qed
  have e1: "getDeviceTier (d\<lparr>deviceYearClass := Some 2023, totalMemory := None\<rparr>) = High"
    by (simp add: getDeviceTier_def truthyNumber_def)
  have e2: "getDeviceTier (d\<lparr>deviceYearClass := None, totalMemory := Some (2 * 1024 ^ 3)\<rparr>) = Low"
    by (simp add: getDeviceTier_def truthyNumber_def)
  have e3: "getDeviceTier (d\<lparr>deviceYearClass := None, totalMemory := None\<rparr>) = Mid"
    by (simp add: getDeviceTier_def truthyNumber_def)
  show ?thesis using year memory neither e1 e2 e3 by blast
qed

theorem getDeviceTier_cases_witness:
  "getDeviceTier (sampleDevice\<lparr>deviceYearClass := Some 2020, totalMemory := Some 1\<rparr>) = Mid \<and>
   getDeviceTier (sampleDevice\<lparr>deviceYearClass := Some 0, totalMemory := Some 8589934592\<rparr>) = High \<and>
   getDeviceTier (sampleDevice\<lparr>deviceYearClass := Some 0, totalMemory := Some 0\<rparr>) = Mid"
  using getDeviceTier_cases
    [of "sampleDevice\<lparr>deviceYearClass := Some 2020, totalMemory := Some 1\<rparr>" 2020 1]
    getDeviceTier_cases
    [of "sampleDevice\<lparr>deviceYearClass := Some 0, totalMemory := Some 8589934592\<rparr>" 0 8589934592]
    getDeviceTier_cases
    [of "sampleDevice\<lparr>deviceYearClass := Some 0, totalMemory := Some 0\<rparr>" 0 0]
  by simp

text \<open>
  C5 as worded fails for a year class that is known to be \<open>0\<close>: with 8 GB of memory the
  function answers from the memory (high), where the wording answers from the year (low).
\<close>

theorem getDeviceTier_zero_year_counterexample:
  "getDeviceTier (sampleDevice\<lparr>deviceYearClass := Some 0, totalMemory := Some 8589934592\<rparr>) = High \<and>
   getDeviceTier_spec (sampleDevice\<lparr>deviceYearClass := Some 0, totalMemory := Some 8589934592\<rparr>) = Low"
  by (simp add: getDeviceTier_def getDeviceTier_spec_def truthyNumber_def)

lemma reasons_eq:
  "reasons (meetsMinimumRequirements info minArg) =
     (if \<not> isDevice info then [NotPhysicalDevice] else []) @
     (if insufficientMemory info (minMemoryGB_of minArg)
      then [InsufficientMemory (toFixed2 (real_of_int (the (totalMemory info)) / (1024 * 1024 * 1024)))
              (minMemoryGB_of minArg)]
      else []) @
     (if deviceTooOld info then [DeviceTooOld (the (deviceYearClass info))] else [])"
  by (auto simp: meetsMinimumRequirements_def insufficientMemory_def deviceTooOld_def
      minMemoryGB_of_def truthyNumber_def Let_def split: option.splits)

lemma meets_eq:
  "meets (meetsMinimumRequirements info minArg) \<longleftrightarrow>
     reasons (meetsMinimumRequirements info minArg) = []"
  by (simp add: meetsMinimumRequirements_def Let_def)

text \<open>
  C6 (amended). \<open>meetsMinimumRequirements\<close> (threshold \<open>minMemoryGB\<close>, 1 when omitted):
  \<open>meets\<close> holds exactly when \<open>reasons\<close> is empty, and exactly one reason is accumulated for
  each of: the snapshot is not a physical device; the memory is present, not \<open>0\<close>, and below
  \<open>minMemoryGB\<close> gigabytes; the year class is present, not \<open>0\<close>, and below 2018. In
  particular a snapshot that is not a physical device, with 1 GB of memory and year class
  2016, checked against 2 GB, does not meet the requirements and has exactly 3 reasons.
\<close>

theorem meetsMinimumRequirements_reasons:
  "(meets (meetsMinimumRequirements info minArg) \<longleftrightarrow>
      reasons (meetsMinimumRequirements info minArg) = []) \<and>
   (NotPhysicalDevice \<in> set (reasons (meetsMinimumRequirements info minArg)) \<longleftrightarrow>
      \<not> isDevice info) \<and>
   (list_ex isInsufficientMemory (reasons (meetsMinimumRequirements info minArg)) \<longleftrightarrow>
      insufficientMemory info (minMemoryGB_of minArg)) \<and>
   (list_ex isDeviceTooOld (reasons (meetsMinimumRequirements info minArg)) \<longleftrightarrow>
      deviceTooOld info) \<and>
   length (reasons (meetsMinimumRequirements info minArg)) =
     (if \<not> isDevice info then 1 else 0) +
     (if insufficientMemory info (minMemoryGB_of minArg) then 1 else 0) +
     (if deviceTooOld info then 1 else 0) \<and>
   meetsMinimumRequirements
     (d\<lparr>isDevice := False, totalMemory := Some (1 * 1024 ^ 3), deviceYearClass := Some 2016\<rparr>)
     (Some 2) =
     \<lparr>meets = False,
      reasons = [NotPhysicalDevice, InsufficientMemory ''1.00'' 2, DeviceTooOld 2016]\<rparr>"
proof -
  let ?r = "reasons (meetsMinimumRequirements info minArg)"
  have a: "meets (meetsMinimumRequirements info minArg) \<longleftrightarrow> ?r = []"
    by (rule meets_eq)
  have b: "NotPhysicalDevice \<in> set ?r \<longleftrightarrow> \<not> isDevice info"
    by (simp add: reasons_eq)
  have c: "list_ex isInsufficientMemory ?r \<longleftrightarrow> insufficientMemory info (minMemoryGB_of minArg)"
    by (simp add: reasons_eq isInsufficientMemory_def isDeviceTooOld_def)
  have d: "list_ex isDeviceTooOld ?r \<longleftrightarrow> deviceTooOld info"
    by (simp add: reasons_eq isInsufficientMemory_def isDeviceTooOld_def)
  have e: "length ?r =
     (if \<not> isDevice info then 1 else 0) +
     (if insufficientMemory info (minMemoryGB_of minArg) then 1 else 0) +
     (if deviceTooOld info then 1 else 0)"
    by (simp add: reasons_eq)
  have f: "meetsMinimumRequirements
     (d\<lparr>isDevice := False, totalMemory := Some (1 * 1024 ^ 3), deviceYearClass := Some 2016\<rparr>)
     (Some 2) =
     \<lparr>meets = False,
      reasons = [NotPhysicalDevice, InsufficientMemory ''1.00'' 2, DeviceTooOld 2016]\<rparr>"
    by (simp add: meetsMinimumRequirements_def truthyNumber_def render_simps)
  show ?thesis using a b c d e f by blast
qed

theorem meetsMinimumRequirements_reasons_witness:
  "meets (meetsMinimumRequirements sampleDevice None) \<and>
   reasons (meetsMinimumRequirements sampleDevice None) = [] \<and>
   \<not> meets (meetsMinimumRequirements (sampleDevice\<lparr>deviceYearClass := Some 2016\<rparr>) None) \<and>
   reasons (meetsMinimumRequirements (sampleDevice\<lparr>deviceYearClass := Some 2016\<rparr>) None) =
     [DeviceTooOld 2016]"
  using meetsMinimumRequirements_reasons [of sampleDevice None sampleDevice]
    meetsMinimumRequirements_reasons
      [of "sampleDevice\<lparr>deviceYearClass := Some 2016\<rparr>" None sampleDevice]
  by (simp add: meetsMinimumRequirements_def truthyNumber_def sampleDevice_def)

text \<open>
  C6 as worded fails for a memory that is known to be \<open>0\<close> bytes: it is below the threshold
  of 1 GB, yet no reason is accumulated and the requirements are met. Likewise a year
  class known to be \<open>0\<close> is below 2018 and accumulates no reason.
\<close>

theorem meetsMinimumRequirements_zero_memory_counterexample:
  "insufficientMemory_spec (sampleDevice\<lparr>totalMemory := Some 0\<rparr>) 1 \<and>
   reasons (meetsMinimumRequirements (sampleDevice\<lparr>totalMemory := Some 0\<rparr>) (Some 1)) = [] \<and>
   meets (meetsMinimumRequirements (sampleDevice\<lparr>totalMemory := Some 0\<rparr>) (Some 1)) \<and>
   deviceTooOld_spec (sampleDevice\<lparr>deviceYearClass := Some 0\<rparr>) \<and>
   reasons (meetsMinimumRequirements (sampleDevice\<lparr>deviceYearClass := Some 0\<rparr>) (Some 1)) = []"
  by (simp add: insufficientMemory_spec_def deviceTooOld_spec_def meetsMinimumRequirements_def
      truthyNumber_def sampleDevice_def)

text \<open>
  C10. Every classification function treats a numeric field equal to \<open>0\<close> as it treats an
  absent field: \<open>formatMemorySize(0)\<close> is \<open>"Unknown"\<close>; \<open>getDeviceTier\<close> gives the same
  tier for a year class (or a memory) of \<open>0\<close> as for an absent one, and mid when both are
  \<open>0\<close>; \<open>meetsMinimumRequirements\<close> gives the same result for a memory (or a year class)
  of \<open>0\<close> as for an absent one, for every threshold: no insufficient-memory reason when
  the memory is \<open>0\<close>, no device-too-old reason when the year class is \<open>0\<close>.
\<close>

theorem zero_is_absent:
  "formatMemorySize (Some 0) = ''Unknown'' \<and>
   formatMemorySize (Some 0) = formatMemorySize None \<and>
   getDeviceTier (info\<lparr>deviceYearClass := Some 0, totalMemory := Some 0\<rparr>) = Mid \<and>
   getDeviceTier (info\<lparr>deviceYearClass := Some 0\<rparr>) =
     getDeviceTier (info\<lparr>deviceYearClass := None\<rparr>) \<and>
   getDeviceTier (info\<lparr>totalMemory := Some 0\<rparr>) = getDeviceTier (info\<lparr>totalMemory := None\<rparr>) \<and>
   meetsMinimumRequirements (info\<lparr>totalMemory := Some 0\<rparr>) minArg =
     meetsMinimumRequirements (info\<lparr>totalMemory := None\<rparr>) minArg \<and>
   meetsMinimumRequirements (info\<lparr>deviceYearClass := Some 0\<rparr>) minArg =
     meetsMinimumRequirements (info\<lparr>deviceYearClass := None\<rparr>) minArg \<and>
   \<not> list_ex isInsufficientMemory
       (reasons (meetsMinimumRequirements (info\<lparr>totalMemory := Some 0\<rparr>) minArg)) \<and>
   \<not> list_ex isDeviceTooOld
       (reasons (meetsMinimumRequirements (info\<lparr>deviceYearClass := Some 0\<rparr>) minArg))"
proof -
  have z: "truthyNumber (Some 0) = None" "truthyNumber None = None"
    by (simp_all add: truthyNumber_def)
  have f: "formatMemorySize (Some 0) = ''Unknown''" "formatMemorySize None = ''Unknown''"
    by (simp_all add: formatMemorySize_def z)
  have t1: "getDeviceTier (info\<lparr>deviceYearClass := Some 0, totalMemory := Some 0\<rparr>) = Mid"
    by (simp add: getDeviceTier_def z)
  have t2: "getDeviceTier (info\<lparr>deviceYearClass := Some 0\<rparr>) =
     getDeviceTier (info\<lparr>deviceYearClass := None\<rparr>)"
    by (simp add: getDeviceTier_def z)
  have t3: "getDeviceTier (info\<lparr>totalMemory := Some 0\<rparr>) =
     getDeviceTier (info\<lparr>totalMemory := None\<rparr>)"
    by (simp add: getDeviceTier_def z split: option.splits)
  have m1: "meetsMinimumRequirements (info\<lparr>totalMemory := Some 0\<rparr>) minArg =
     meetsMinimumRequirements (info\<lparr>totalMemory := None\<rparr>) minArg"
    by (simp add: meetsMinimumRequirements_def z)
  have m2: "meetsMinimumRequirements (info\<lparr>deviceYearClass := Some 0\<rparr>) minArg =
     meetsMinimumRequirements (info\<lparr>deviceYearClass := None\<rparr>) minArg"
    by (simp add: meetsMinimumRequirements_def z)
  have n1: "\<not> list_ex isInsufficientMemory
       (reasons (meetsMinimumRequirements (info\<lparr>totalMemory := Some 0\<rparr>) minArg))"
    by (simp add: reasons_eq insufficientMemory_def deviceTooOld_def isInsufficientMemory_def)
  have n2: "\<not> list_ex isDeviceTooOld
       (reasons (meetsMinimumRequirements (info\<lparr>deviceYearClass := Some 0\<rparr>) minArg))"
    by (simp add: reasons_eq insufficientMemory_def deviceTooOld_def isDeviceTooOld_def
        isInsufficientMemory_def)
  show ?thesis using f t1 t2 t3 m1 m2 n1 n2 by simp
qed

theorem zero_is_absent_witness:
  "getDeviceTier (sampleDevice\<lparr>deviceYearClass := Some 0, totalMemory := Some 0\<rparr>) = Mid \<and>
   reasons (meetsMinimumRequirements (sampleDevice\<lparr>totalMemory := Some 0\<rparr>) (Some 2)) = []"
  using zero_is_absent [of sampleDevice "Some 2"]
  by (simp add: meetsMinimumRequirements_def truthyNumber_def sampleDevice_def)


section \<open>Properties of the guarded call primitives\<close>

lemma race_op_timer:
  "race [p, timeoutPromise now timeoutMs] =
     (case settledAt p of
        None \<Rightarrow> Rejected (now + timeoutMs)
      | Some t \<Rightarrow> if t \<le> now + timeoutMs then p else Rejected (now + timeoutMs))"
  by (simp add: timeoutPromise_def settledAt_def split: promise.splits option.splits)

lemma withTimeout_throws:
  "operation now = CallThrows \<Longrightarrow> withTimeout operation timeoutMs now = Fulfilled now None"
  by (simp add: withTimeout_def tryCatch_def)

lemma withTimeout_returns:
  "operation now = CallReturns p \<Longrightarrow>
   withTimeout operation timeoutMs now =
     (case p of
        Fulfilled t v \<Rightarrow>
          if t \<le> now + timeoutMs then Fulfilled t v else Fulfilled (now + timeoutMs) None
      | Rejected t \<Rightarrow>
          if t \<le> now + timeoutMs then Fulfilled t None else Fulfilled (now + timeoutMs) None
      | Pending \<Rightarrow> Fulfilled (now + timeoutMs) None)"
  by (simp add: withTimeout_def race_op_timer tryCatch_def settledAt_def del: race.simps
      split: promise.splits)

text \<open>
  C2. \<open>withTimeout(op, timeoutMs)\<close>, called at \<open>now\<close>, returns the result of \<open>op\<close> when
  \<open>op\<close> resolves before the timer fires, and \<open>null\<close> when \<open>op\<close> throws (synchronously,
  or by a rejection before the timer fires), settles only after the bound, or never
  settles; in the last two cases \<open>null\<close> is returned when the timer fires.
\<close>

theorem withTimeout_cases:
  "(operation now = CallReturns (Fulfilled t v) \<and> t < now + timeoutMs \<longrightarrow>
      withTimeout operation timeoutMs now = Fulfilled t v) \<and>
   (operation now = CallThrows \<longrightarrow>
      withTimeout operation timeoutMs now = Fulfilled now None) \<and>
   (operation now = CallReturns (Rejected t) \<and> t < now + timeoutMs \<longrightarrow>
      withTimeout operation timeoutMs now = Fulfilled t None) \<and>
   (operation now = CallReturns (Fulfilled t v) \<and> now + timeoutMs < t \<longrightarrow>
      withTimeout operation timeoutMs now = Fulfilled (now + timeoutMs) None) \<and>
   (operation now = CallReturns (Rejected t) \<and> now + timeoutMs < t \<longrightarrow>
      withTimeout operation timeoutMs now = Fulfilled (now + timeoutMs) None) \<and>
   (operation now = CallReturns Pending \<longrightarrow>
      withTimeout operation timeoutMs now = Fulfilled (now + timeoutMs) None)"
  by (auto simp: withTimeout_throws withTimeout_returns)

theorem withTimeout_cases_witness:
  "withTimeout (\<lambda>t. CallReturns (Fulfilled (t + 5) (Some (42::int)))) 1000 0 =
     Fulfilled 5 (Some 42) \<and>
   withTimeout (\<lambda>t. (CallThrows :: int option call)) 1000 0 = Fulfilled 0 None \<and>
   withTimeout (\<lambda>t. (CallReturns (Rejected (t + 5)) :: int option call)) 1000 0 =
     Fulfilled 5 None \<and>
   withTimeout (\<lambda>t. CallReturns (Fulfilled (t + 1500) (Some (42::int)))) 1000 0 =
     Fulfilled 1000 None \<and>
   withTimeout (\<lambda>t. (CallReturns (Rejected (t + 1500)) :: int option call)) 1000 0 =
     Fulfilled 1000 None \<and>
   withTimeout (\<lambda>t. (CallReturns Pending :: int option call)) 1000 0 = Fulfilled 1000 None"
  using withTimeout_cases [of "\<lambda>t. CallReturns (Fulfilled (t + 5) (Some (42::int)))" 0 5 "Some 42" 1000]
    withTimeout_cases [of "\<lambda>t. (CallThrows :: int option call)" 0 0 None 1000]
    withTimeout_cases [of "\<lambda>t. (CallReturns (Rejected (t + 5)) :: int option call)" 0 5 None 1000]
    withTimeout_cases [of "\<lambda>t. CallReturns (Fulfilled (t + 1500) (Some (42::int)))" 0 1500 "Some 42" 1000]
    withTimeout_cases [of "\<lambda>t. (CallReturns (Rejected (t + 1500)) :: int option call)" 0 1500 None 1000]
    withTimeout_cases [of "\<lambda>t. (CallReturns Pending :: int option call)" 0 0 None 1000]
  by simp

lemma mapCalls_returns:
  "map (\<lambda>operation. operation now) operations = map CallReturns ps \<Longrightarrow>
   mapCalls operations now = Some (map (\<lambda>p. tryCatch p (\<lambda>t. Fulfilled t None)) ps)"
  by (induction operations arbitrary: ps) auto

lemma mapCalls_throws:
  "CallThrows \<in> set (map (\<lambda>operation. operation now) operations) \<Longrightarrow>
   mapCalls operations now = None"
  by (induction operations) (auto split: call.splits option.splits)

lemma mapCalls_cases:
  "(CallThrows \<in> set (map (\<lambda>operation. operation now) operations) \<and>
      mapCalls operations now = None) \<or>
   (\<exists>ps. map (\<lambda>operation. operation now) operations = map CallReturns ps \<and>
      mapCalls operations now = Some (map (\<lambda>p. tryCatch p (\<lambda>t. Fulfilled t None)) ps))"
proof (induction operations)
  case Nil
  then show ?case by simp
next
  case (Cons operation operations)
  show ?case
  proof (cases "operation now")
    case CallThrows
    then show ?thesis by simp
  next
    case (CallReturns p)
    from Cons.IH show ?thesis
    proof
      assume "CallThrows \<in> set (map (\<lambda>operation. operation now) operations) \<and>
        mapCalls operations now = None"
      then show ?thesis using CallReturns by simp
    next
      assume "\<exists>ps. map (\<lambda>operation. operation now) operations = map CallReturns ps \<and>
        mapCalls operations now = Some (map (\<lambda>p. tryCatch p (\<lambda>t. Fulfilled t None)) ps)"
      then obtain ps where ps: "map (\<lambda>operation. operation now) operations = map CallReturns ps"
        "mapCalls operations now = Some (map (\<lambda>p. tryCatch p (\<lambda>t. Fulfilled t None)) ps)"
        by blast
      have "map (\<lambda>operation. operation now) (operation # operations) = map CallReturns (p # ps)"
        using ps(1) CallReturns by simp
      moreover have "mapCalls (operation # operations) now =
          Some (map (\<lambda>p. tryCatch p (\<lambda>t. Fulfilled t None)) (p # ps))"
        using ps(2) CallReturns by simp
      ultimately show ?thesis by blast
    qed
  qed
qed

lemma promiseAll_caught:
  "promiseAll now (map (\<lambda>p. tryCatch p (\<lambda>t. Fulfilled t None)) ps) =
     (case batchTime now ps of None \<Rightarrow> Pending | Some t \<Rightarrow> Fulfilled t (map entryOf ps))"
proof (induction ps)
  case Nil
  then show ?case by simp
next
  case (Cons p ps)
  then show ?case
    by (cases p; cases "batchTime now ps")
      (simp_all add: tryCatch_def promiseAll2_def settledAt_def entryOf_def)
qed

lemma withTimeoutAll_throws:
  "CallThrows \<in> set (map (\<lambda>operation. operation now) operations) \<Longrightarrow>
   withTimeoutAll operations timeoutMs now = Fulfilled now (map (\<lambda>_. None) operations)"
  by (simp add: withTimeoutAll_def mapCalls_throws tryCatch_def)

lemma withTimeoutAll_returns:
  assumes "map (\<lambda>operation. operation now) operations = map CallReturns ps"
  shows "withTimeoutAll operations timeoutMs now =
     (case batchTime now ps of
        None \<Rightarrow> Fulfilled (now + timeoutMs) (map (\<lambda>_. None) operations)
      | Some t \<Rightarrow>
          if t \<le> now + timeoutMs then Fulfilled t (map entryOf ps)
          else Fulfilled (now + timeoutMs) (map (\<lambda>_. None) operations))"
  unfolding withTimeoutAll_def mapCalls_returns [OF assms] option.case promiseAll_caught
    race_op_timer
  by (simp add: tryCatch_def settledAt_def split: option.splits)

lemma withTimeoutAll_shape:
  "\<exists>t rs. withTimeoutAll operations timeoutMs now = Fulfilled t rs \<and>
     t \<le> now + timeoutMs \<and> length rs = length operations"
proof -
  from mapCalls_cases [of now operations] show ?thesis
  proof
    assume "CallThrows \<in> set (map (\<lambda>operation. operation now) operations) \<and>
      mapCalls operations now = None"
    then show ?thesis by (simp add: withTimeoutAll_throws)
  next
    assume "\<exists>ps. map (\<lambda>operation. operation now) operations = map CallReturns ps \<and>
      mapCalls operations now = Some (map (\<lambda>p. tryCatch p (\<lambda>t. Fulfilled t None)) ps)"
    then obtain ps where ps: "map (\<lambda>operation. operation now) operations = map CallReturns ps"
      by blast
    then have "length ps = length operations"
      by (metis length_map)
    then show ?thesis
      by (simp add: withTimeoutAll_returns [OF ps] split: option.splits)
  qed
qed

text \<open>
  C9 (amended). \<open>withTimeoutAll(ops, t)\<close> always returns an array with exactly
  \<open>ops.length\<close> entries. When every operation returns a promise and the whole batch has
  settled before the shared timer fires, the entries are, in the order of the input, the
  corresponding operation's result, or \<open>null\<close> for an operation whose promise is rejected.
  When the shared timer fires before the whole batch has settled, every entry is \<open>null\<close>.
  When some operation throws synchronously as it is called, every entry is \<open>null\<close>.
\<close>

theorem withTimeoutAll_cases:
  "(\<exists>t rs. withTimeoutAll operations timeoutMs now = Fulfilled t rs \<and>
      length rs = length operations) \<and>
   (map (\<lambda>operation. operation now) operations = map CallReturns ps \<and>
    batchTime now ps = Some u \<and> u < now + timeoutMs \<longrightarrow>
      withTimeoutAll operations timeoutMs now = Fulfilled u (map entryOf ps)) \<and>
   (map (\<lambda>operation. operation now) operations = map CallReturns ps \<and>
    (batchTime now ps = None \<or> batchTime now ps = Some u \<and> now + timeoutMs < u) \<longrightarrow>
      withTimeoutAll operations timeoutMs now =
        Fulfilled (now + timeoutMs) (map (\<lambda>_. None) operations)) \<and>
   (CallThrows \<in> set (map (\<lambda>operation. operation now) operations) \<longrightarrow>
      withTimeoutAll operations timeoutMs now = Fulfilled now (map (\<lambda>_. None) operations))"
proof -
  have arity: "\<exists>t rs. withTimeoutAll operations timeoutMs now = Fulfilled t rs \<and>
      length rs = length operations"
    using withTimeoutAll_shape [of operations timeoutMs now] by blast
  have early: "withTimeoutAll operations timeoutMs now = Fulfilled u (map entryOf ps)"
    if "map (\<lambda>operation. operation now) operations = map CallReturns ps"
      "batchTime now ps = Some u" "u < now + timeoutMs"
    using that(2,3) by (simp add: withTimeoutAll_returns [OF that(1)])
  have late: "withTimeoutAll operations timeoutMs now =
      Fulfilled (now + timeoutMs) (map (\<lambda>_. None) operations)"
    if "map (\<lambda>operation. operation now) operations = map CallReturns ps"
      "batchTime now ps = None \<or> batchTime now ps = Some u \<and> now + timeoutMs < u"
    using that(2) by (auto simp: withTimeoutAll_returns [OF that(1)])
  show ?thesis using arity early late withTimeoutAll_throws by blast
qed

theorem withTimeoutAll_cases_witness:
  "withTimeoutAll
     [\<lambda>t. CallReturns (Fulfilled (t + 5) (Some (1::int))), \<lambda>t. CallReturns (Rejected (t + 7))]
     2000 0 = Fulfilled 7 [Some 1, None] \<and>
   withTimeoutAll
     [\<lambda>t. CallReturns (Fulfilled (t + 5) (Some (1::int))), \<lambda>t. CallReturns Pending]
     2000 0 = Fulfilled 2000 [None, None] \<and>
   withTimeoutAll
     [\<lambda>t. CallReturns (Fulfilled (t + 5) (Some (1::int))), \<lambda>t. CallThrows]
     2000 0 = Fulfilled 0 [None, None]"
  using
    withTimeoutAll_cases [of
      "[\<lambda>t. CallReturns (Fulfilled (t + 5) (Some (1::int))), \<lambda>t. CallReturns (Rejected (t + 7))]"
      2000 0 "[Fulfilled 5 (Some 1), Rejected 7]" 7]
    withTimeoutAll_cases [of
      "[\<lambda>t. CallReturns (Fulfilled (t + 5) (Some (1::int))), \<lambda>t. CallReturns Pending]"
      2000 0 "[Fulfilled 5 (Some 1), Pending]" 0]
    withTimeoutAll_cases [of
      "[\<lambda>t. CallReturns (Fulfilled (t + 5) (Some (1::int))), \<lambda>t. CallThrows]"
      2000 0 "[]" 0]
  by (simp add: settledAt_def entryOf_def)

text \<open>
  C9 as worded fails when an operation throws synchronously: the other operation resolves
  with 7 at once, long before the timer, yet its entry is \<open>null\<close> too.
\<close>

theorem withTimeoutAll_sync_throw_counterexample:
  "withTimeoutAll
     [\<lambda>t. CallThrows, \<lambda>t. CallReturns (Fulfilled t (Some (7::int)))] 2000 0 =
     Fulfilled 0 [None, None] \<and>
   map (\<lambda>operation. entryOf_spec (operation 0))
     [\<lambda>t. CallThrows, \<lambda>t. CallReturns (Fulfilled t (Some (7::int)))] = [None, Some 7]"
  by (simp add: withTimeoutAll_def tryCatch_def entryOf_spec_def entryOf_def)


section \<open>Properties of the services\<close>

lemma fulfilledBy_Fulfilled [simp]: "fulfilledBy d (Fulfilled t v) \<longleftrightarrow> t \<le> d"
  by (simp add: fulfilledBy_def)

lemma fulfilledByE:
  assumes "fulfilledBy d p"
  obtains t v where "p = Fulfilled t v" "t \<le> d"
  using assms by (cases p) (simp_all add: fulfilledBy_def)


lemma fulfilledBy_await:
  "fulfilledBy d p \<Longrightarrow> (\<And>t v. t \<le> d \<Longrightarrow> fulfilledBy d' (k t v)) \<Longrightarrow> fulfilledBy d' (await p k)"
  by (cases p) (simp_all add: fulfilledBy_def await_def)

lemma fulfilledBy_tryCatch: "fulfilledBy d body \<Longrightarrow> fulfilledBy d (tryCatch body handler)"
  by (auto simp: fulfilledBy_def tryCatch_def split: promise.splits)


lemma withTimeout_fulfilledBy: "fulfilledBy (now + timeoutMs) (withTimeout operation timeoutMs now)"
proof (cases "operation now")
  case CallThrows
  then show ?thesis by (simp add: withTimeout_throws fulfilledBy_def)
next
  case (CallReturns p)
  then show ?thesis
    by (simp add: withTimeout_returns fulfilledBy_def split: promise.splits)
qed

lemma getDeviceInfo_fulfilledBy:
  "fulfilledBy (now + 1000) (DeviceInfoService_getDeviceInfo env now)"
  unfolding DeviceInfoService_getDeviceInfo_def
  by (intro fulfilledBy_tryCatch fulfilledBy_await [OF withTimeout_fulfilledBy]) simp

lemma getDeviceId_fulfilledBy:
  "fulfilledBy (now + 1000) (DeviceIdService_getDeviceId env now)"
  unfolding DeviceIdService_getDeviceId_def
  by (intro fulfilledBy_tryCatch) (auto intro!: fulfilledBy_await [OF withTimeout_fulfilledBy])









lemma providerOrDefault_safeAccess: "providerOrDefault a dflt (safeAccess a dflt)"
  by (cases a) (simp_all add: providerOrDefault_def safeAccess_def)

lemma safeAccess_fails: "accessFails a \<Longrightarrow> safeAccess a dflt = dflt"
  by (cases a) (simp_all add: accessFails_def safeAccess_def)

lemma safeAccess_nullable_fails: "accessFails a \<Longrightarrow> safeAccess (nullable a) None = None"
  by (cases a) (simp_all add: accessFails_def safeAccess_def nullable_def)

lemmas device_eval =
  DeviceInfoService_getDeviceInfo_def getMinimalDeviceInfo_def withTimeout_def invoke_def
  await_def tryCatch_def timeoutPromise_def settledAt_def safeAccess_def nullable_def
  sampleProviders_def failingProviders_def

lemmas provider_eval =
  DeviceIdService_getDeviceId_def DeviceIdService_getOfflineUserId_def withTimeout_def
  asyncArrow_def invoke_def await_def tryCatch_def timeoutPromise_def settledAt_def
  truthyString_def sampleProviders_def failingProviders_def

text \<open>
  C3 (amended). \<open>getDeviceInfo\<close> always yields a snapshot, within 1000 ms, in which each
  field is, independently of the others, either the value its provider yields when the
  snapshot is built or that field's default (\<open>null\<close>; \<open>false\<close> for \<open>isDevice\<close>);
  \<open>totalMemory\<close> is the result of the guarded memory call; the platform tag is the current
  runtime platform. When every property access fails and the memory is absent, the
  snapshot is the all-unknown variant.
\<close>

theorem getDeviceInfo_fieldwise:
  "\<exists>t d. DeviceInfoService_getDeviceInfo env now = Fulfilled t d \<and> t \<le> now + 1000 \<and>
     withTimeout (\<lambda>t. invoke (Device_getMaxMemoryAsync env t) t) 1000 now =
       Fulfilled t (totalMemory d) \<and>
     platform d = Platform_OS env \<and>
     providerOrDefault (nullable (Device_brand env t)) None (brand d) \<and>
     providerOrDefault (nullable (Device_manufacturer env t)) None (manufacturer d) \<and>
     providerOrDefault (nullable (Device_modelName env t)) None (modelName d) \<and>
     providerOrDefault (nullable (Device_modelId env t)) None (modelId d) \<and>
     providerOrDefault (nullable (Device_deviceName env t)) None (deviceName d) \<and>
     providerOrDefault (nullable (Device_deviceYearClass env t)) None (deviceYearClass d) \<and>
     providerOrDefault (nullable (Device_deviceType env t)) None (deviceType d) \<and>
     providerOrDefault (Device_isDevice env t) False (isDevice d) \<and>
     providerOrDefault (nullable (Device_osName env t)) None (osName d) \<and>
     providerOrDefault (nullable (Device_osVersion env t)) None (osVersion d) \<and>
     providerOrDefault (nullable (Device_osBuildId env t)) None (osBuildId d) \<and>
     providerOrDefault (nullable (Device_platformApiLevel env t)) None (platformApiLevel d) \<and>
     (deviceAccessesFail env t \<and> totalMemory d = None \<longrightarrow> d = getMinimalDeviceInfo env)"
proof -
  obtain t m where w:
    "withTimeout (\<lambda>t. invoke (Device_getMaxMemoryAsync env t) t) 1000 now = Fulfilled t m"
    "t \<le> now + 1000"
    using withTimeout_fulfilledBy by (rule fulfilledByE)
  define d where "d =
    \<lparr>brand = safeAccess (nullable (Device_brand env t)) None,
     manufacturer = safeAccess (nullable (Device_manufacturer env t)) None,
     modelName = safeAccess (nullable (Device_modelName env t)) None,
     modelId = safeAccess (nullable (Device_modelId env t)) None,
     deviceName = safeAccess (nullable (Device_deviceName env t)) None,
     deviceYearClass = safeAccess (nullable (Device_deviceYearClass env t)) None,
     deviceType = safeAccess (nullable (Device_deviceType env t)) None,
     isDevice = safeAccess (Device_isDevice env t) False,
     osName = safeAccess (nullable (Device_osName env t)) None,
     osVersion = safeAccess (nullable (Device_osVersion env t)) None,
     osBuildId = safeAccess (nullable (Device_osBuildId env t)) None,
     platformApiLevel = safeAccess (nullable (Device_platformApiLevel env t)) None,
     totalMemory = m,
     platform = Platform_OS env\<rparr>"
  have r: "DeviceInfoService_getDeviceInfo env now = Fulfilled t d"
    by (simp add: DeviceInfoService_getDeviceInfo_def w(1) await_def tryCatch_def d_def)
  have fields:
    "totalMemory d = m" "platform d = Platform_OS env"
    "providerOrDefault (nullable (Device_brand env t)) None (brand d)"
    "providerOrDefault (nullable (Device_manufacturer env t)) None (manufacturer d)"
    "providerOrDefault (nullable (Device_modelName env t)) None (modelName d)"
    "providerOrDefault (nullable (Device_modelId env t)) None (modelId d)"
    "providerOrDefault (nullable (Device_deviceName env t)) None (deviceName d)"
    "providerOrDefault (nullable (Device_deviceYearClass env t)) None (deviceYearClass d)"
    "providerOrDefault (nullable (Device_deviceType env t)) None (deviceType d)"
    "providerOrDefault (Device_isDevice env t) False (isDevice d)"
    "providerOrDefault (nullable (Device_osName env t)) None (osName d)"
    "providerOrDefault (nullable (Device_osVersion env t)) None (osVersion d)"
    "providerOrDefault (nullable (Device_osBuildId env t)) None (osBuildId d)"
    "providerOrDefault (nullable (Device_platformApiLevel env t)) None (platformApiLevel d)"
    by (simp_all add: d_def providerOrDefault_safeAccess)
  have minimal: "d = getMinimalDeviceInfo env" if "deviceAccessesFail env t" "totalMemory d = None"
    using that
    by (simp add: d_def getMinimalDeviceInfo_def deviceAccessesFail_def safeAccess_fails
        safeAccess_nullable_fails)
  show ?thesis
    using r w fields minimal by (intro exI [of _ t] exI [of _ d]) simp
qed

theorem getDeviceInfo_fieldwise_witness:
  "DeviceInfoService_getDeviceInfo failingProviders 0 =
     Fulfilled 0 (getMinimalDeviceInfo failingProviders)"
  using getDeviceInfo_fieldwise [of failingProviders 0]
  by (simp add: device_eval)

text \<open>
  C3 as worded fails when one property access throws and the others succeed: the snapshot
  has the default for \<open>brand\<close> and provider values elsewhere, so it is neither fully
  populated nor entirely defaulted.
\<close>

theorem getDeviceInfo_partial_counterexample:
  "DeviceInfoService_getDeviceInfo (sampleProviders\<lparr>Device_brand := \<lambda>t. AccessThrows\<rparr>) 0 =
     Fulfilled 5
       \<lparr>brand = None, manufacturer = Some ''Apple'', modelName = Some ''iPhone 13 Pro!'',
        modelId = Some ''iPhone14,2'', deviceName = None, deviceYearClass = Some 2021,
        deviceType = Some PHONE, isDevice = True, osName = Some ''iOS'',
        osVersion = Some ''17.0'', osBuildId = None, platformApiLevel = None,
        totalMemory = Some 6442450944, platform = IOS\<rparr> \<and>
   \<not> fullyPopulated_spec (sampleProviders\<lparr>Device_brand := \<lambda>t. AccessThrows\<rparr>) 0 5
       \<lparr>brand = None, manufacturer = Some ''Apple'', modelName = Some ''iPhone 13 Pro!'',
        modelId = Some ''iPhone14,2'', deviceName = None, deviceYearClass = Some 2021,
        deviceType = Some PHONE, isDevice = True, osName = Some ''iOS'',
        osVersion = Some ''17.0'', osBuildId = None, platformApiLevel = None,
        totalMemory = Some 6442450944, platform = IOS\<rparr> \<and>
   \<not> entirelyDefaulted_spec (sampleProviders\<lparr>Device_brand := \<lambda>t. AccessThrows\<rparr>)
       \<lparr>brand = None, manufacturer = Some ''Apple'', modelName = Some ''iPhone 13 Pro!'',
        modelId = Some ''iPhone14,2'', deviceName = None, deviceYearClass = Some 2021,
        deviceType = Some PHONE, isDevice = True, osName = Some ''iOS'',
        osVersion = Some ''17.0'', osBuildId = None, platformApiLevel = None,
        totalMemory = Some 6442450944, platform = IOS\<rparr>"
  by (simp add: device_eval fullyPopulated_spec_def entirelyDefaulted_spec_def
      carriesProviderValue_def)

lemma getDeviceId_not_empty: "DeviceIdService_getDeviceId env now \<noteq> Fulfilled t (Some [])"
proof -
  have k: "await (withTimeout operation 1000 now) (\<lambda>t result. Fulfilled t (truthyString result))
      \<noteq> Fulfilled t (Some [])" for operation :: "time \<Rightarrow> string option call"
    using withTimeout_fulfilledBy [of now 1000 operation]
    by (auto simp: await_def truthyString_def fulfilledBy_def split: promise.splits option.splits if_splits)
  show ?thesis
    unfolding DeviceIdService_getDeviceId_def
    using k by (auto simp: tryCatch_def split: promise.splits if_splits)
qed

text \<open>
  C8. \<open>getOfflineUserId(fallbackId)\<close> returns \<open>null\<close> on the web platform whatever the
  argument; on the other platforms it returns the identifier that \<open>getDeviceId\<close> yields,
  which is then not empty, prefixed with \<open>"offline_"\<close>, and when \<open>getDeviceId\<close> yields
  \<open>null\<close> it returns \<open>fallbackId\<close> (\<open>"offline_user"\<close> when omitted). \<open>getDeviceId\<close> always
  yields one or the other.
\<close>

theorem getOfflineUserId_cases:
  "(Platform_OS env = Web \<longrightarrow>
      DeviceIdService_getOfflineUserId env fallbackArg now = Fulfilled now None) \<and>
   (Platform_OS env \<noteq> Web \<and> DeviceIdService_getDeviceId env now = Fulfilled t (Some d) \<longrightarrow>
      d \<noteq> [] \<and>
      DeviceIdService_getOfflineUserId env fallbackArg now = Fulfilled t (Some (''offline_'' @ d))) \<and>
   (Platform_OS env \<noteq> Web \<and> DeviceIdService_getDeviceId env now = Fulfilled t None \<longrightarrow>
      DeviceIdService_getOfflineUserId env fallbackArg now =
        Fulfilled t (Some (case fallbackArg of None \<Rightarrow> ''offline_user'' | Some s \<Rightarrow> s))) \<and>
   (\<exists>u r. DeviceIdService_getDeviceId env now = Fulfilled u r)"
proof -
  have web: "DeviceIdService_getOfflineUserId env fallbackArg now = Fulfilled now None"
    if "Platform_OS env = Web"
    using that by (simp add: DeviceIdService_getOfflineUserId_def)
  have found: "d \<noteq> [] \<and>
      DeviceIdService_getOfflineUserId env fallbackArg now = Fulfilled t (Some (''offline_'' @ d))"
    if "Platform_OS env \<noteq> Web" "DeviceIdService_getDeviceId env now = Fulfilled t (Some d)"
  proof -
    have "d \<noteq> []" using that(2) getDeviceId_not_empty [of env now t] by auto
    then show ?thesis
      using that by (simp add: DeviceIdService_getOfflineUserId_def await_def truthyString_def)
  qed
  have absent: "DeviceIdService_getOfflineUserId env fallbackArg now =
        Fulfilled t (Some (case fallbackArg of None \<Rightarrow> ''offline_user'' | Some s \<Rightarrow> s))"
    if "Platform_OS env \<noteq> Web" "DeviceIdService_getDeviceId env now = Fulfilled t None"
    using that by (simp add: DeviceIdService_getOfflineUserId_def await_def truthyString_def)
  have yields: "\<exists>u r. DeviceIdService_getDeviceId env now = Fulfilled u r"
    using getDeviceId_fulfilledBy [of now env] by (auto elim: fulfilledByE)
  show ?thesis using web found absent yields by blast
qed

theorem getOfflineUserId_cases_witness:
  "DeviceIdService_getOfflineUserId (sampleProviders\<lparr>Platform_OS := Web\<rparr>) (Some ''guest'') 0 =
     Fulfilled 0 None \<and>
   DeviceIdService_getOfflineUserId sampleProviders (Some ''guest'') 0 =
     Fulfilled 20 (Some ''offline_A1B2C3D4-xyzABC'') \<and>
   DeviceIdService_getOfflineUserId failingProviders None 0 = Fulfilled 0 (Some ''offline_user'')"
  using getOfflineUserId_cases [of "sampleProviders\<lparr>Platform_OS := Web\<rparr>" "Some ''guest''" 0 0 "[]"]
    getOfflineUserId_cases [of sampleProviders "Some ''guest''" 0 20 "''A1B2C3D4-xyzABC''"]
    getOfflineUserId_cases [of failingProviders None 0 0 "[]"]
  by (simp add: provider_eval)

lemma upper_xyzABC: "toUpperCase ''xyzABC'' = ''XYZABC''"
  by (simp add: toUpperCase_def upperChar_def)

lemma clean_iPhone: "cleanModelName (Some ''iPhone 13 Pro!'') = ''iPhone13Pro''"
  by (simp add: cleanModelName_def truthyString_def isAlnum_def)

lemma extractIdPart_suffix:
  "extractIdPart env (Some (pre @ ''xyzABC'')) 6 t = ''XYZABC''"
  by (simp add: extractIdPart_def truthyString_def upper_xyzABC)

lemma getUserFriendlyId_fetched:
  assumes os: "Platform_OS env \<noteq> Web"
    and info: "DeviceInfoService_getDeviceInfo env now = Fulfilled t1 d"
    and ident: "DeviceIdService_getDeviceId env now = Fulfilled t2 i"
  shows "withTimeoutAll
       [\<lambda>t. CallReturns
               (map_promise (\<lambda>d. Some (FetchedInfo d)) (DeviceInfoService_getDeviceInfo env t)),
        \<lambda>t. CallReturns
               (map_promise (map_option FetchedId) (DeviceIdService_getDeviceId env t))]
       2000 now =
     Fulfilled (max t1 (max t2 now)) [Some (FetchedInfo d), map_option FetchedId i]"
proof -
  have b1: "t1 \<le> now + 1000"
    using getDeviceInfo_fulfilledBy [of now env] by (simp add: info)
  have b2: "t2 \<le> now + 1000"
    using getDeviceId_fulfilledBy [of now env] by (simp add: ident)
  have calls: "map (\<lambda>operation. operation now)
       [\<lambda>t. CallReturns
               (map_promise (\<lambda>d. Some (FetchedInfo d)) (DeviceInfoService_getDeviceInfo env t)),
        \<lambda>t. CallReturns
               (map_promise (map_option FetchedId) (DeviceIdService_getDeviceId env t))] =
     map CallReturns
       [Fulfilled t1 (Some (FetchedInfo d)), Fulfilled t2 (map_option FetchedId i)]"
    by (simp add: info ident)
  show ?thesis
    unfolding withTimeoutAll_returns [OF calls]
    using b1 b2 by (simp add: settledAt_def entryOf_def)
qed

lemma sample_getDeviceInfo:
  "DeviceInfoService_getDeviceInfo sampleProviders 0 =
     Fulfilled 5
       \<lparr>brand = Some ''Apple'', manufacturer = Some ''Apple'', modelName = Some ''iPhone 13 Pro!'',
        modelId = Some ''iPhone14,2'', deviceName = None, deviceYearClass = Some 2021,
        deviceType = Some PHONE, isDevice = True, osName = Some ''iOS'',
        osVersion = Some ''17.0'', osBuildId = None, platformApiLevel = None,
        totalMemory = Some 6442450944, platform = IOS\<rparr>"
  by (simp add: device_eval)

lemma sample_getDeviceId:
  "DeviceIdService_getDeviceId sampleProviders 0 = Fulfilled 20 (Some ''A1B2C3D4-xyzABC'')"
  by (simp add: provider_eval)

lemma sample_os: "Platform_OS sampleProviders = IOS"
  by (simp add: sampleProviders_def)

text \<open>
  C4 (amended). On a platform other than web, when the fetched snapshot has the model name
  \<open>"iPhone 13 Pro!"\<close> and the identifier that is resolved ends in \<open>"xyzABC"\<close>,
  \<open>getUserFriendlyId\<close> returns \<open>"iPhone13Pro-XYZABC"\<close>: the model name without its
  non-alphanumeric characters, a hyphen, and the last 6 characters of the identifier in
  upper case. The suffix is \<open>"XYZABC"\<close>.
\<close>

theorem getUserFriendlyId_from_model_and_identifier:
  assumes "Platform_OS env \<noteq> Web"
    and "DeviceInfoService_getDeviceInfo env now = Fulfilled t1 d"
    and "modelName d = Some ''iPhone 13 Pro!''"
    and "DeviceIdService_getDeviceId env now = Fulfilled t2 (Some (pre @ ''xyzABC''))"
  shows "UserFriendlyIdService_getUserFriendlyId env now =
      Fulfilled (max t1 (max t2 now)) ''iPhone13Pro-XYZABC'' \<and>
    ''iPhone13Pro-XYZABC'' =
      filter isAlnum ''iPhone 13 Pro!'' @ ''-'' @
      toUpperCase (drop (length (pre @ ''xyzABC'') - 6) (pre @ ''xyzABC''))"
proof -
  have m: "jsOr (modelName d) x = Some ''iPhone 13 Pro!''" for x
    by (simp add: jsOr_def truthyString_def assms(3))
  have "UserFriendlyIdService_getUserFriendlyId env now =
      Fulfilled (max t1 (max t2 now)) ''iPhone13Pro-XYZABC''"
    unfolding UserFriendlyIdService_getUserFriendlyId_def
      getUserFriendlyId_fetched [OF assms(1,2,4)]
    using assms(1)
    by (simp add: await_def tryCatch_def element_def Let_def m truthyString_def clean_iPhone
        extractIdPart_suffix)
  moreover have "''iPhone13Pro-XYZABC'' =
      filter isAlnum ''iPhone 13 Pro!'' @ ''-'' @
      toUpperCase (drop (length (pre @ ''xyzABC'') - 6) (pre @ ''xyzABC''))"
    by (simp add: isAlnum_def upper_xyzABC)
  ultimately show ?thesis by simp
qed

theorem getUserFriendlyId_from_model_and_identifier_witness:
  "UserFriendlyIdService_getUserFriendlyId sampleProviders 0 = Fulfilled 20 ''iPhone13Pro-XYZABC''"
  using getUserFriendlyId_from_model_and_identifier
    [of sampleProviders 0 5 _ 20 "''A1B2C3D4-''", OF _ sample_getDeviceInfo]
  by (simp add: sample_getDeviceId sample_os)

text \<open>
  C4 as worded names the suffix \<open>"ZABC"\<close>; for an identifier ending in \<open>"xyzABC"\<close> the
  suffix of the label is \<open>"XYZABC"\<close>.
\<close>

theorem getUserFriendlyId_suffix_counterexample:
  "DeviceService_getUserFriendlyId sampleProviders 0 = Fulfilled 20 ''iPhone13Pro-XYZABC'' \<and>
   drop (length ''iPhone13Pro-'') ''iPhone13Pro-XYZABC'' = ''XYZABC'' \<and>
   ''XYZABC'' \<noteq> ''ZABC''"
proof -
  have m: "jsOr (Some ''iPhone 13 Pro!'') x = Some ''iPhone 13 Pro!''" for x
    by (simp add: jsOr_def truthyString_def)
  have i: "extractIdPart sampleProviders (Some ''A1B2C3D4-xyzABC'') 6 t = ''XYZABC''" for t
    using extractIdPart_suffix [of sampleProviders "''A1B2C3D4-''" t] by simp
  have "UserFriendlyIdService_getUserFriendlyId sampleProviders 0 =
      Fulfilled 20 ''iPhone13Pro-XYZABC''"
    unfolding UserFriendlyIdService_getUserFriendlyId_def
      getUserFriendlyId_fetched [of sampleProviders, OF _ sample_getDeviceInfo sample_getDeviceId,
        unfolded sample_os, simplified]
    by (simp add: sample_os await_def tryCatch_def element_def Let_def m truthyString_def
        clean_iPhone i)
  then show ?thesis by (simp add: DeviceService_getUserFriendlyId_def)
qed

end
